theory Spec2Isabelle
  imports Main
begin

section \<open>Values shared by both source files\<close>

text \<open>
  The repository holds two versions of the response wrapper: \<^verbatim>\<open>response.go\<close>, which embeds
  the \<^verbatim>\<open>*http.Response\<close> and caches the decoded body in a byte slice, and
  \<^verbatim>\<open>part_000\<close>, which keeps the raw response in a field, caches into a
  \<^verbatim>\<open>*bytes.Buffer\<close> and records an \<^verbatim>\<open>internalError\<close>. The functions of
  \<^verbatim>\<open>response.go\<close> keep their names; those of \<^verbatim>\<open>part_000\<close> carry the
  suffix \<open>0\<close>.

  A Go byte is a \<^typ>\<open>char\<close> (eight bits), a Go string a \<^typ>\<open>string\<close>, and a
  byte slice that may be \<^verbatim>\<open>nil\<close> an optional list: \<open>None\<close> is the nil slice,
  \<open>Some []\<close> the empty slice that is not nil.
\<close>

type_synonym byte = char

type_synonym slice = "byte list option"

text \<open>
  Error values. \<open>EOF\<close> is \<^verbatim>\<open>io.EOF\<close>, \<open>ErrBodyReadAfterClose\<close> the error of
  \<^verbatim>\<open>net/http\<close> for a read on a closed response body, \<open>ErrNoProgress\<close>
  \<^verbatim>\<open>io.ErrNoProgress\<close>, \<open>Failure m\<close> any other error of a library, known by its
  message, and \<open>Errorf p e\<close> the result of \<^verbatim>\<open>fmt.Errorf(p + ": %w", e)\<close>.
\<close>

datatype error =
    EOF
  | ErrBodyReadAfterClose
  | ErrNoProgress
  | Failure string
  | Errorf string error

text \<open>A call either returns or panics (a nil dereference at run time).\<close>

datatype 'a outcome = Return 'a | Panic

section \<open>The response body: a readable and closable stream\<close>

text \<open>
  The body the transport hands over: the bytes not yet read, the error the transport
  delivers once they are exhausted (\<open>None\<close> is a clean end of stream), whether
  \<^verbatim>\<open>Close\<close> has been called, and the number of \<^verbatim>\<open>Read\<close> calls it has
  received so far.
\<close>

record body =
  pending :: "byte list"
  failure :: "error option"
  closed :: bool
  reads :: nat

text \<open>The error of a read that finds no byte left.\<close>

definition end_error :: "body \<Rightarrow> error" where
  "end_error b = (case failure b of None \<Rightarrow> EOF | Some e \<Rightarrow> e)"

text \<open>
  \<^verbatim>\<open>Body.Read(p)\<close> with \<open>len(p) = n\<close>: the bytes copied into \<open>p\<close> and the
  error. A closed body refuses the read, as the bodies of \<^verbatim>\<open>net/http\<close> do.
\<close>

definition body_Read :: "nat \<Rightarrow> body \<Rightarrow> (byte list \<times> error option) \<times> body" where
  "body_Read n b =
     (if closed b then
        (([], Some ErrBodyReadAfterClose), b\<lparr>reads := Suc (reads b)\<rparr>)
      else if pending b = [] then
        (([], Some (end_error b)), b\<lparr>reads := Suc (reads b)\<rparr>)
      else
        ((take n (pending b), None),
         b\<lparr>pending := drop n (pending b), reads := Suc (reads b)\<rparr>))"

definition body_Close :: "body \<Rightarrow> error option \<times> body" where
  "body_Close b = (None, b\<lparr>closed := True\<rparr>)"

text \<open>
  The loop shared by \<^verbatim>\<open>ioutil.ReadAll\<close>, \<^verbatim>\<open>bytes.Buffer.ReadFrom\<close> and the
  buffered reader of a decompressor: read with a buffer of \<open>n\<close> bytes until a read
  reports an error, and hand back the bytes together with that error. The libraries only
  run it with a positive buffer length.
\<close>

function read_until_error :: "nat \<Rightarrow> body \<Rightarrow> (byte list \<times> error) \<times> body" where
  "read_until_error n b =
     (if n = 0 then (([], ErrNoProgress), b)
      else case body_Read n b of
             ((bs, Some e), b') \<Rightarrow> ((bs, e), b')
           | ((bs, None), b') \<Rightarrow>
               (case read_until_error n b' of
                  ((rest, e), b'') \<Rightarrow> ((bs @ rest, e), b'')))"
  by pat_completeness auto
termination
  by (relation "measure (\<lambda>(n, b). length (pending b))")
     (auto simp: body_Read_def split: if_splits)

declare read_until_error.simps [simp del]

text \<open>
  \<^verbatim>\<open>ioutil.ReadAll\<close>: reads until a read reports an error, treats \<^verbatim>\<open>io.EOF\<close> as
  success, and always returns a slice that is not nil, also when no byte was read. The
  model offers 512 bytes to every read, the first buffer of the library; the library
  offers the spare capacity of a slice that grows, so for a body of more than one buffer
  it may make fewer reads than the model counts. The bytes and the error are the same.
\<close>

definition ReadAll :: "body \<Rightarrow> (slice \<times> error option) \<times> body" where
  "ReadAll b =
     (case read_until_error 512 b of
        ((bs, e), b') \<Rightarrow> ((Some bs, if e = EOF then None else Some e), b'))"

section \<open>The decompressors of the standard library\<close>

text \<open>
  \<^verbatim>\<open>compress/gzip\<close> and \<^verbatim>\<open>compress/zlib\<close> are not code of this repository, so a
  decompressor is a parameter of the model: \<open>check_header\<close> is the test
  \<^verbatim>\<open>NewReader\<close> makes on the first bytes of the stream (\<open>Some e\<close> when it
  rejects them), and \<open>inflate\<close> gives, for the complete compressed stream, the bytes the
  decompressing reader delivers and the error that stops it, if any.
\<close>

record codec =
  check_header :: "byte list \<Rightarrow> error option"
  inflate :: "byte list \<Rightarrow> byte list \<times> error option"

text \<open>
  \<^verbatim>\<open>NewReader(src)\<close>: the source is wrapped in a buffered reader of 4096 bytes, whose
  first fill is one read of the source; a failed read or a rejected header gives
  \<^verbatim>\<open>(nil, err)\<close>. On success the result is the buffered prefix the reader holds.
\<close>

definition NewReader :: "codec \<Rightarrow> body \<Rightarrow> (byte list option \<times> error option) \<times> body" where
  "NewReader c b =
     (case body_Read 4096 b of
        ((bs, Some e), b') \<Rightarrow> ((None, Some e), b')
      | ((bs, None), b') \<Rightarrow>
          (case check_header c bs of
             Some e \<Rightarrow> ((None, Some e), b')
           | None \<Rightarrow> ((Some bs, None), b')))"

text \<open>
  Reading a decompressing reader to its end: the rest of the source is pulled through
  the buffered reader and the whole stream is inflated. An error of the decompressor
  comes first; otherwise the error that ended the source, \<^verbatim>\<open>io.EOF\<close> apart.
  This is how a gzip reader goes on, which looks for a further member until the source
  ends. A zlib reader stops at the checksum of its stream: on a source that ends
  cleanly right after the stream it delivers the same bytes and no error, with one read
  of the source less than the model counts, and it never meets a failure of the source
  that comes after the stream. The theorems on a decompressed body are about sources
  that end cleanly, and state no count of reads.
\<close>

definition inflate_all :: "codec \<Rightarrow> byte list \<Rightarrow> body \<Rightarrow> (byte list \<times> error option) \<times> body" where
  "inflate_all c buffered b =
     (case read_until_error 4096 b of
        ((rest, e), b') \<Rightarrow>
          (case inflate c (buffered @ rest) of
             (out, Some d) \<Rightarrow> ((out, Some d), b')
           | (out, None) \<Rightarrow> ((out, if e = EOF then None else Some e), b')))"

section \<open>The HTTP response of the transport\<close>

text \<open>
  The fields of \<^verbatim>\<open>http.Response\<close> the code reads. The header map is keyed by
  canonical names, as the transport builds it; \<^verbatim>\<open>Header.Get\<close> canonicalises the key
  it is given and returns the first value stored under it, or the empty string. The one
  key the code passes, \<^verbatim>\<open>"Content-Encoding"\<close>, is its own canonical form.
\<close>

record http_response =
  Status :: string
  StatusCode :: int
  Header :: "string \<rightharpoonup> string list"
  Body :: "body option"
  ContentLength :: int

definition Header_Get :: "(string \<rightharpoonup> string list) \<Rightarrow> string \<Rightarrow> string" where
  "Header_Get h k = (case h k of None \<Rightarrow> [] | Some [] \<Rightarrow> [] | Some (v # vs) \<Rightarrow> v)"

section \<open>The file system\<close>

text \<open>
  The files by path, and the paths at which \<^verbatim>\<open>os.Create\<close> and a write fail.
  \<^verbatim>\<open>os.Create\<close> truncates; a successful write appends all its bytes.
\<close>

record filesystem =
  files :: "string \<rightharpoonup> byte list"
  create_failure :: "string \<rightharpoonup> error"
  write_failure :: "string \<rightharpoonup> error"

definition os_Create :: "string \<Rightarrow> filesystem \<Rightarrow> error option \<times> filesystem" where
  "os_Create path fs =
     (case create_failure fs path of
        Some e \<Rightarrow> (Some e, fs)
      | None \<Rightarrow> (None, fs\<lparr>files := (files fs)(path \<mapsto> [])\<rparr>))"

definition file_Write :: "string \<Rightarrow> byte list \<Rightarrow> filesystem \<Rightarrow> error option \<times> filesystem" where
  "file_Write path bs fs =
     (case write_failure fs path of
        Some e \<Rightarrow> (Some e, fs)
      | None \<Rightarrow>
          (None, fs\<lparr>files := (files fs)(path \<mapsto> (case files fs path of None \<Rightarrow> [] | Some old \<Rightarrow> old) @ bs)\<rparr>))"

section \<open>response.go\<close>

text \<open>
  \<^verbatim>\<open>Response\<close> embeds the \<^verbatim>\<open>*http.Response\<close> and adds \<open>content\<close>, the cache of
  the decoded body, nil until the first load. The embedded pointer is taken to be set.
\<close>

record response = http_response +
  content :: slice

definition NewResponse :: "http_response \<Rightarrow> response" where
  "NewResponse resp = http_response.extend resp (response.fields None)"

definition Ok :: "response \<Rightarrow> bool" where
  "Ok r = (StatusCode r < 400 \<and> StatusCode r \<ge> 200)"

text \<open>
  The two ways \<^verbatim>\<open>loadContent\<close> fills \<open>reader\<close>. Each runs to the function's exit and
  so ends with the deferred \<^verbatim>\<open>reader.Close()\<close>.

  Without a known encoding \<open>reader\<close> is the body itself: it is read to its end and the
  deferred call closes it.
\<close>

definition load_identity :: "body \<Rightarrow> response \<Rightarrow> (slice \<times> error option) outcome \<times> response" where
  "load_identity b r =
     (case ReadAll b of
        ((c, err), b') \<Rightarrow>
          (case body_Close b' of
             (_, b'') \<Rightarrow>
               (case err of
                  Some e \<Rightarrow>
                    (if e = EOF then (Return (c, None), r\<lparr>Body := Some b'', content := c\<rparr>)
                     else (Return (None, Some e), r\<lparr>Body := Some b''\<rparr>))
                | None \<Rightarrow> (Return (c, None), r\<lparr>Body := Some b'', content := c\<rparr>))))"

text \<open>
  With \<^verbatim>\<open>gzip\<close> or \<^verbatim>\<open>deflate\<close>, \<open>reader\<close> is what \<^verbatim>\<open>NewReader\<close> returned.
  When \<^verbatim>\<open>NewReader\<close> fails, \<open>reader\<close> holds nil (a nil \<^verbatim>\<open>*gzip.Reader\<close>, or the
  nil interface of \<^verbatim>\<open>zlib\<close>), the function returns the error, and the deferred
  \<^verbatim>\<open>reader.Close()\<close> dereferences nil: the call panics. When it succeeds, the deferred
  call closes the decompressor, which leaves the body it reads from open.
\<close>

definition load_compressed :: "codec \<Rightarrow> body \<Rightarrow> response \<Rightarrow> (slice \<times> error option) outcome \<times> response" where
  "load_compressed c b r =
     (case NewReader c b of
        ((None, err), b') \<Rightarrow> (Panic, r\<lparr>Body := Some b'\<rparr>)
      | ((Some buffered, err), b') \<Rightarrow>
          (case inflate_all c buffered b' of
             ((out, Some e), b'') \<Rightarrow>
               (if e = EOF then (Return (Some out, None), r\<lparr>Body := Some b'', content := Some out\<rparr>)
                else (Return (None, Some e), r\<lparr>Body := Some b''\<rparr>))
           | ((out, None), b'') \<Rightarrow>
               (Return (Some out, None), r\<lparr>Body := Some b'', content := Some out\<rparr>)))"

text \<open>
  \<^verbatim>\<open>loadContent\<close>: the cache when it is not nil; otherwise the switch on the value of
  the \<^verbatim>\<open>Content-Encoding\<close> header. \<open>gz\<close> and \<open>zl\<close> are the decompressors of
  \<^verbatim>\<open>gzip\<close> and \<^verbatim>\<open>zlib\<close>. A nil body panics at the first read.
\<close>

definition loadContent :: "codec \<Rightarrow> codec \<Rightarrow> response \<Rightarrow> (slice \<times> error option) outcome \<times> response" where
  "loadContent gz zl r =
     (case content r of
        Some c \<Rightarrow> (Return (Some c, None), r)
      | None \<Rightarrow>
          (case Body r of
             None \<Rightarrow> (Panic, r)
           | Some b \<Rightarrow>
               (if Header_Get (Header r) ''Content-Encoding'' = ''gzip'' then load_compressed gz b r
                else if Header_Get (Header r) ''Content-Encoding'' = ''deflate'' then load_compressed zl b r
                else load_identity b r)))"

text \<open>
  \<^verbatim>\<open>bytes.NewReader(s).Read(p)\<close> on a fresh reader with \<open>len(p) = n\<close>: the count, the
  bytes copied and the error.
\<close>

definition bytes_Reader_Read :: "nat \<Rightarrow> byte list \<Rightarrow> int \<times> byte list \<times> error option" where
  "bytes_Reader_Read n s =
     (if s = [] then (0, [], Some EOF) else (int (length (take n s)), take n s, None))"

definition bytes_of :: "slice \<Rightarrow> byte list" where
  "bytes_of c = (case c of None \<Rightarrow> [] | Some bs \<Rightarrow> bs)"

definition Read :: "codec \<Rightarrow> codec \<Rightarrow> nat \<Rightarrow> response \<Rightarrow> (int \<times> byte list \<times> error option) outcome \<times> response" where
  "Read gz zl n r =
     (case loadContent gz zl r of
        (Panic, r') \<Rightarrow> (Panic, r')
      | (Return (c, Some e), r') \<Rightarrow> (Return (0, [], Some e), r')
      | (Return (c, None), r') \<Rightarrow> (Return (bytes_Reader_Read n (bytes_of c)), r'))"

text \<open>
  \<^verbatim>\<open>io.Copy(ioutil.Discard, r)\<close> runs \<^verbatim>\<open>Discard.ReadFrom(r)\<close>: it calls
  \<^verbatim>\<open>r.Read\<close> with a buffer of 8192 bytes until a read reports an error, and returns
  that error unless it is \<^verbatim>\<open>io.EOF\<close>. Nothing bounds the loop, so the model counts
  the reads it may still make: \<open>None\<close> says the loop was still running when the count
  ran out.
\<close>

fun discard_ReadFrom :: "nat \<Rightarrow> codec \<Rightarrow> codec \<Rightarrow> response \<Rightarrow> (error option outcome \<times> response) option" where
  "discard_ReadFrom 0 gz zl r = None"
| "discard_ReadFrom (Suc k) gz zl r =
     (case Read gz zl 8192 r of
        (Panic, r') \<Rightarrow> Some (Panic, r')
      | (Return (n, bs, Some e), r') \<Rightarrow> Some (Return (if e = EOF then None else Some e), r')
      | (Return (n, bs, None), r') \<Rightarrow> discard_ReadFrom k gz zl r')"

definition Close :: "nat \<Rightarrow> codec \<Rightarrow> codec \<Rightarrow> response \<Rightarrow> (error option outcome \<times> response) option" where
  "Close k gz zl r =
     (case discard_ReadFrom k gz zl r of
        None \<Rightarrow> None
      | Some (Panic, r') \<Rightarrow> Some (Panic, r')
      | Some (Return (Some e), r') \<Rightarrow> Some (Return (Some e), r')
      | Some (Return None, r') \<Rightarrow>
          (case Body r' of
             None \<Rightarrow> Some (Return None, r')
           | Some b \<Rightarrow>
               (case body_Close b of (e, b') \<Rightarrow> Some (Return e, r'\<lparr>Body := Some b'\<rparr>))))"

definition Text :: "codec \<Rightarrow> codec \<Rightarrow> response \<Rightarrow> (string \<times> error option) outcome \<times> response" where
  "Text gz zl r =
     (case loadContent gz zl r of
        (Panic, r') \<Rightarrow> (Panic, r')
      | (Return (c, Some e), r') \<Rightarrow> (Return ([], Some e), r')
      | (Return (c, None), r') \<Rightarrow> (Return (bytes_of c, None), r'))"

definition Content :: "codec \<Rightarrow> codec \<Rightarrow> response \<Rightarrow> (slice \<times> error option) outcome \<times> response" where
  "Content gz zl r =
     (case loadContent gz zl r of
        (Panic, r') \<Rightarrow> (Panic, r')
      | (Return (c, Some e), r') \<Rightarrow> (Return (None, Some e), r')
      | (Return (c, None), r') \<Rightarrow> (Return (c, None), r'))"

text \<open>
  The JSON parsers (\<^verbatim>\<open>simplejson.NewJson\<close>, \<^verbatim>\<open>json.Unmarshal\<close>) are parameters:
  \<open>parse bs\<close> is the parsed value, if any, and the parser's error, if any.
\<close>

definition SimpleJSON :: "codec \<Rightarrow> codec \<Rightarrow> (byte list \<Rightarrow> 'j option \<times> error option) \<Rightarrow> response \<Rightarrow>
    ('j option \<times> error option) outcome \<times> response" where
  "SimpleJSON gz zl parse r =
     (case loadContent gz zl r of
        (Panic, r') \<Rightarrow> (Panic, r')
      | (Return (c, Some e), r') \<Rightarrow> (Return (None, Some (Errorf ''Json error'' e)), r')
      | (Return (c, None), r') \<Rightarrow> (Return (parse (bytes_of c)), r'))"

definition JSON :: "codec \<Rightarrow> codec \<Rightarrow> (byte list \<Rightarrow> 'j option \<times> error option) \<Rightarrow> response \<Rightarrow>
    ('j option \<times> error option) outcome \<times> response" where
  "JSON gz zl parse r =
     (case loadContent gz zl r of
        (Panic, r') \<Rightarrow> (Panic, r')
      | (Return (c, Some e), r') \<Rightarrow> (Return (None, Some e), r')
      | (Return (c, None), r') \<Rightarrow> (Return (parse (bytes_of c)), r'))"

text \<open>
  \<^verbatim>\<open>SaveContent\<close>: the file is created first, then the content is loaded and written.
  The deferred \<^verbatim>\<open>f.Close()\<close> leaves the file's bytes as they are.
\<close>

definition SaveContent :: "codec \<Rightarrow> codec \<Rightarrow> string \<Rightarrow> response \<times> filesystem \<Rightarrow>
    error option outcome \<times> response \<times> filesystem" where
  "SaveContent gz zl filename rf =
     (case os_Create filename (snd rf) of
        (Some e, fs') \<Rightarrow> (Return (Some e), fst rf, fs')
      | (None, fs') \<Rightarrow>
          (case loadContent gz zl (fst rf) of
             (Panic, r') \<Rightarrow> (Panic, r', fs')
           | (Return (c, Some e), r') \<Rightarrow> (Return (Some e), r', fs')
           | (Return (c, None), r') \<Rightarrow>
               (case file_Write filename (bytes_of c) fs' of
                  (Some e, fs'') \<Rightarrow> (Return (Some e), r', fs'')
                | (None, fs'') \<Rightarrow> (Return None, r', fs''))))"

section \<open>part_000\<close>

text \<open>
  \<^verbatim>\<open>Response\<close> of \<^verbatim>\<open>part_000\<close>: a pointer to the raw response (nil when the
  transport failed), copies of its status and header, the buffer the decoded body is
  copied into (\<open>None\<close> is the nil pointer of a response built from an error, otherwise
  the bytes of the buffer not yet consumed), and the recorded error.
\<close>

record response0 =
  RawResponse :: "http_response option"
  Status0 :: string
  StatusCode0 :: int
  Header0 :: "string \<rightharpoonup> string list"
  content0 :: "byte list option"
  internalError :: "error option"

text \<open>
  The two struct literals of \<^verbatim>\<open>NewResponse\<close>: after a transport error every field
  but \<open>internalError\<close> has its zero value; otherwise the fields are copied from the
  raw response and the buffer is new and empty.
\<close>

definition failed0 :: "error \<Rightarrow> response0" where
  "failed0 e =
     \<lparr>RawResponse = None, Status0 = [], StatusCode0 = 0, Header0 = Map.empty,
      content0 = None, internalError = Some e\<rparr>"

definition received0 :: "http_response \<Rightarrow> response0" where
  "received0 raw =
     \<lparr>RawResponse = Some raw, Status0 = Status raw, StatusCode0 = StatusCode raw,
      Header0 = Header raw, content0 = Some [], internalError = None\<rparr>"

definition NewResponse0 :: "http_response option \<Rightarrow> error option \<Rightarrow> (response0 \<times> error option) outcome" where
  "NewResponse0 rawResp err =
     (case err of
        Some e \<Rightarrow> Return (failed0 e, Some (Errorf ''NewResponse error'' e))
      | None \<Rightarrow>
          (case rawResp of
             None \<Rightarrow> Panic
           | Some raw \<Rightarrow> Return (received0 raw, None)))"

definition Ok0 :: "response0 \<Rightarrow> bool" where
  "Ok0 r =
     (case internalError r of
        Some e \<Rightarrow> False
      | None \<Rightarrow> StatusCode0 r < 400 \<and> StatusCode0 r \<ge> 200)"

definition Read0 :: "nat \<Rightarrow> response0 \<Rightarrow> (int \<times> byte list \<times> error option) outcome \<times> response0" where
  "Read0 n r =
     (case internalError r of
        Some e \<Rightarrow> (Return (- 1, [], Some e), r)
      | None \<Rightarrow>
          (case RawResponse r of
             None \<Rightarrow> (Panic, r)
           | Some raw \<Rightarrow>
               (case Body raw of
                  None \<Rightarrow> (Panic, r)
                | Some b \<Rightarrow>
                    (case body_Read n b of
                       ((bs, e), b') \<Rightarrow>
                         (Return (int (length bs), bs, e),
                          r\<lparr>RawResponse := Some (raw\<lparr>Body := Some b'\<rparr>)\<rparr>)))))"

text \<open>
  The read loop of the libraries again, now over \<^verbatim>\<open>r.Read\<close>: every reader
  \<^verbatim>\<open>part_000\<close> hands to \<^verbatim>\<open>io.Copy\<close>, \<^verbatim>\<open>gzip\<close> or \<^verbatim>\<open>zlib\<close> is the
  response itself. The loop ends because each read without an error shortens the
  unread part of the body.
\<close>

definition unread0 :: "response0 \<Rightarrow> nat" where
  "unread0 r =
     (case RawResponse r of
        None \<Rightarrow> 0
      | Some raw \<Rightarrow> (case Body raw of None \<Rightarrow> 0 | Some b \<Rightarrow> length (pending b)))"

function copy_until_error0 :: "nat \<Rightarrow> response0 \<Rightarrow> (byte list \<times> error) outcome \<times> response0" where
  "copy_until_error0 n r =
     (if n = 0 then (Return ([], ErrNoProgress), r)
      else case Read0 n r of
             (Panic, r') \<Rightarrow> (Panic, r')
           | (Return (m, bs, Some e), r') \<Rightarrow> (Return (bs, e), r')
           | (Return (m, bs, None), r') \<Rightarrow>
               (case copy_until_error0 n r' of
                  (Panic, r'') \<Rightarrow> (Panic, r'')
                | (Return (rest, e), r'') \<Rightarrow> (Return (bs @ rest, e), r'')))"
  by pat_completeness auto
termination
  by (relation "measure (\<lambda>(n, r). unread0 r)")
     (auto simp: Read0_def body_Read_def unread0_def split: option.splits if_splits)

declare copy_until_error0.simps [simp del]

text \<open>
  \<^verbatim>\<open>Close\<close>: the recorded error if there is one; otherwise the body is drained into
  \<^verbatim>\<open>ioutil.Discard\<close> (the error of the copy is dropped) and closed.
\<close>

definition Close0 :: "response0 \<Rightarrow> error option outcome \<times> response0" where
  "Close0 r =
     (case internalError r of
        Some e \<Rightarrow> (Return (Some e), r)
      | None \<Rightarrow>
          (case copy_until_error0 8192 r of
             (Panic, r') \<Rightarrow> (Panic, r')
           | (Return x, r') \<Rightarrow>
               (case RawResponse r' of
                  None \<Rightarrow> (Panic, r')
                | Some raw \<Rightarrow>
                    (case Body raw of
                       None \<Rightarrow> (Panic, r')
                     | Some b \<Rightarrow>
                         (case body_Close b of
                            (e, b') \<Rightarrow>
                              (Return e, r'\<lparr>RawResponse := Some (raw\<lparr>Body := Some b'\<rparr>)\<rparr>))))))"

text \<open>\<^verbatim>\<open>NewReader(r)\<close> and the read of a decompressing reader to its end, over \<^verbatim>\<open>r.Read\<close>.\<close>

definition NewReader0 :: "codec \<Rightarrow> response0 \<Rightarrow> (byte list option \<times> error option) outcome \<times> response0" where
  "NewReader0 c r =
     (case Read0 4096 r of
        (Panic, r') \<Rightarrow> (Panic, r')
      | (Return (m, bs, Some e), r') \<Rightarrow> (Return (None, Some e), r')
      | (Return (m, bs, None), r') \<Rightarrow>
          (case check_header c bs of
             Some e \<Rightarrow> (Return (None, Some e), r')
           | None \<Rightarrow> (Return (Some bs, None), r')))"

definition inflate_all0 :: "codec \<Rightarrow> byte list \<Rightarrow> response0 \<Rightarrow> (byte list \<times> error option) outcome \<times> response0" where
  "inflate_all0 c buffered r =
     (case copy_until_error0 4096 r of
        (Panic, r') \<Rightarrow> (Panic, r')
      | (Return (rest, e), r') \<Rightarrow>
          (case inflate c (buffered @ rest) of
             (out, Some d) \<Rightarrow> (Return (out, Some d), r')
           | (out, None) \<Rightarrow> (Return (out, if e = EOF then None else Some e), r')))"

text \<open>
  What the variable \<open>reader\<close> of \<^verbatim>\<open>loadContent\<close> holds when the function exits:
  nil after a failed \<^verbatim>\<open>NewReader\<close>, the response itself, or a decompressor.
\<close>

datatype reader0 = NilReader | Self | Decompressor

text \<open>
  \<^verbatim>\<open>io.Copy(r.content, reader)\<close> runs \<^verbatim>\<open>r.content.ReadFrom(reader)\<close>, which appends
  what it reads to the buffer as it goes, so the bytes read before an error stay in the
  buffer. \<^verbatim>\<open>ReadFrom\<close> offers the spare capacity of the buffer to every read, at least
  512 bytes and more after \<^verbatim>\<open>Grow\<close>; the model offers 512, so for a longer body the
  library may make fewer reads than the model counts. The bytes and the error are the
  same.
\<close>

definition copy_identity0 :: "response0 \<Rightarrow> (error option \<times> reader0) outcome \<times> response0" where
  "copy_identity0 r =
     (case copy_until_error0 512 r of
        (Panic, r') \<Rightarrow> (Panic, r')
      | (Return (bs, e), r') \<Rightarrow>
          (Return (if e = EOF then None else Some e, Self),
           r'\<lparr>content0 := map_option (\<lambda>c. c @ bs) (content0 r')\<rparr>))"

definition copy_compressed0 :: "codec \<Rightarrow> response0 \<Rightarrow> (error option \<times> reader0) outcome \<times> response0" where
  "copy_compressed0 c r =
     (case NewReader0 c r of
        (Panic, r') \<Rightarrow> (Panic, r')
      | (Return (None, err), r') \<Rightarrow> (Return (err, NilReader), r')
      | (Return (Some buffered, err), r') \<Rightarrow>
          (case inflate_all0 c buffered r' of
             (Panic, r'') \<Rightarrow> (Panic, r'')
           | (Return (out, err'), r'') \<Rightarrow>
               (Return (case err' of None \<Rightarrow> None | Some e \<Rightarrow> if e = EOF then None else Some e,
                        Decompressor),
                r''\<lparr>content0 := map_option (\<lambda>c. c @ out) (content0 r'')\<rparr>)))"

text \<open>
  The deferred function of \<^verbatim>\<open>loadContent\<close>: \<^verbatim>\<open>r.Close()\<close>, then
  \<^verbatim>\<open>reader.Close()\<close>, which panics on a nil reader, closes the response once more when
  the reader is the response, and leaves the response as it is when it closes a
  decompressor.
\<close>

definition deferred0 :: "(error option \<times> reader0) outcome \<times> response0 \<Rightarrow> error option outcome \<times> response0" where
  "deferred0 x =
     (case x of
        (Panic, r) \<Rightarrow> (Panic, r)
      | (Return (err, rd), r) \<Rightarrow>
          (case Close0 r of
             (Panic, r') \<Rightarrow> (Panic, r')
           | (Return e1, r') \<Rightarrow>
               (case rd of
                  NilReader \<Rightarrow> (Panic, r')
                | Decompressor \<Rightarrow> (Return err, r')
                | Self \<Rightarrow>
                    (case Close0 r' of
                       (Panic, r'') \<Rightarrow> (Panic, r'')
                     | (Return e2, r'') \<Rightarrow> (Return err, r'')))))"

text \<open>
  \<^verbatim>\<open>bytes.Buffer.Grow(n)\<close> changes the capacity of the buffer only, and panics when
  \<open>n\<close> is negative or when the runtime cannot provide the room
  (\<^verbatim>\<open>bytes.ErrTooLarge\<close>). How much room there is depends on the machine, so it is a
  parameter of the model: \<open>room\<close> is the largest \<open>n\<close> for which \<^verbatim>\<open>Grow\<close> returns.
\<close>

definition Buffer_Grow :: "int \<Rightarrow> int \<Rightarrow> unit outcome" where
  "Buffer_Grow room n = (if n < 0 then Panic else if room < n then Panic else Return ())"

text \<open>
  \<^verbatim>\<open>loadContent\<close>: the recorded error; nothing to do when the buffer holds bytes or the
  declared length is zero; otherwise the buffer is grown to a positive declared length,
  the deferred function is set up, and the switch on the header value follows. A panic
  of \<^verbatim>\<open>Grow\<close> comes before the deferred function exists, so nothing has been read or
  closed then.
\<close>

definition loadContent0 :: "int \<Rightarrow> codec \<Rightarrow> codec \<Rightarrow> response0 \<Rightarrow> error option outcome \<times> response0" where
  "loadContent0 room gz zl r =
     (case internalError r of
        Some e \<Rightarrow> (Return (Some e), r)
      | None \<Rightarrow>
          (case content0 r of
             None \<Rightarrow> (Panic, r)
           | Some c \<Rightarrow>
               (if 0 < length c then (Return None, r)
                else
                  (case RawResponse r of
                     None \<Rightarrow> (Panic, r)
                   | Some raw \<Rightarrow>
                       (if ContentLength raw = 0 then (Return None, r)
                        else
                          (case (if 0 < ContentLength raw then Buffer_Grow room (ContentLength raw)
                                 else Return ()) of
                             Panic \<Rightarrow> (Panic, r)
                           | Return u \<Rightarrow>
                               deferred0
                                 (if Header_Get (Header0 r) ''Content-Encoding'' = ''gzip'' then copy_compressed0 gz r
                                  else if Header_Get (Header0 r) ''Content-Encoding'' = ''deflate'' then copy_compressed0 zl r
                                  else copy_identity0 r)))))))"

definition Text0 :: "int \<Rightarrow> codec \<Rightarrow> codec \<Rightarrow> response0 \<Rightarrow> (string \<times> error option) outcome \<times> response0" where
  "Text0 room gz zl r =
     (case loadContent0 room gz zl r of
        (Panic, r') \<Rightarrow> (Panic, r')
      | (Return (Some e), r') \<Rightarrow> (Return ([], Some e), r')
      | (Return None, r') \<Rightarrow>
          (case content0 r' of
             None \<Rightarrow> (Return (''<nil>'', None), r')
           | Some c \<Rightarrow> (Return (c, None), r')))"

definition Content0 :: "int \<Rightarrow> codec \<Rightarrow> codec \<Rightarrow> response0 \<Rightarrow> (slice \<times> error option) outcome \<times> response0" where
  "Content0 room gz zl r =
     (case loadContent0 room gz zl r of
        (Panic, r') \<Rightarrow> (Panic, r')
      | (Return (Some e), r') \<Rightarrow> (Return (None, Some e), r')
      | (Return None, r') \<Rightarrow>
          (case content0 r' of
             None \<Rightarrow> (Panic, r')
           | Some c \<Rightarrow>
               (if length c = 0 then (Return (None, None), r')
                else (Return (Some c, None), r'))))"

definition Json0 :: "int \<Rightarrow> codec \<Rightarrow> codec \<Rightarrow> (byte list \<Rightarrow> 'j option \<times> error option) \<Rightarrow> response0 \<Rightarrow>
    ('j option \<times> error option) outcome \<times> response0" where
  "Json0 room gz zl parse r =
     (case internalError r of
        Some e \<Rightarrow> (Return (None, Some e), r)
      | None \<Rightarrow>
          (case Content0 room gz zl r of
             (Panic, r') \<Rightarrow> (Panic, r')
           | (Return (cnt, Some e), r') \<Rightarrow>
               (Return (None, Some (Errorf ''Json error'' e)), r'\<lparr>internalError := Some e\<rparr>)
           | (Return (cnt, None), r') \<Rightarrow> (Return (parse (bytes_of cnt)), r')))"

text \<open>
  \<^verbatim>\<open>getContent\<close> chooses the source of the copy: the response itself while the
  buffer is empty, the buffer otherwise.
\<close>

datatype source0 = TheResponse | TheBuffer

definition getContent0 :: "response0 \<Rightarrow> source0 outcome" where
  "getContent0 r =
     (case content0 r of
        None \<Rightarrow> Panic
      | Some c \<Rightarrow> Return (if length c = 0 then TheResponse else TheBuffer))"

text \<open>
  \<^verbatim>\<open>io.Copy(f, r.getContent())\<close>. From the response, what \<^verbatim>\<open>r.Read\<close> delivers goes
  to the file, and nothing is written when nothing was read. From the buffer,
  \<^verbatim>\<open>WriteTo\<close> writes its bytes and, once they are written, resets it.
\<close>

definition copy_to_file0 :: "string \<Rightarrow> response0 \<Rightarrow> filesystem \<Rightarrow> error option outcome \<times> response0 \<times> filesystem" where
  "copy_to_file0 filename r fs =
     (case getContent0 r of
        Panic \<Rightarrow> (Panic, r, fs)
      | Return TheResponse \<Rightarrow>
          (case copy_until_error0 32768 r of
             (Panic, r') \<Rightarrow> (Panic, r', fs)
           | (Return (bs, e), r') \<Rightarrow>
               (if bs = [] then (Return (if e = EOF then None else Some e), r', fs)
                else
                  (case file_Write filename bs fs of
                     (Some we, fs') \<Rightarrow> (Return (Some we), r', fs')
                   | (None, fs') \<Rightarrow> (Return (if e = EOF then None else Some e), r', fs'))))
      | Return TheBuffer \<Rightarrow>
          (case file_Write filename (bytes_of (content0 r)) fs of
             (Some we, fs') \<Rightarrow> (Return (Some we), r, fs')
           | (None, fs') \<Rightarrow> (Return None, r\<lparr>content0 := Some []\<rparr>, fs')))"

text \<open>
  \<^verbatim>\<open>SaveContent\<close>: the recorded error; otherwise the file is created, the copy runs,
  and the deferred \<^verbatim>\<open>f.Close()\<close> and \<^verbatim>\<open>r.Close()\<close> follow. It never calls
  \<^verbatim>\<open>loadContent\<close>.
\<close>

definition SaveContent0 :: "string \<Rightarrow> response0 \<times> filesystem \<Rightarrow> error option outcome \<times> response0 \<times> filesystem" where
  "SaveContent0 filename rf =
     (case internalError (fst rf) of
        Some e \<Rightarrow> (Return (Some e), fst rf, snd rf)
      | None \<Rightarrow>
          (case os_Create filename (snd rf) of
             (Some e, fs') \<Rightarrow> (Return (Some (Errorf ''SaveContent error'' e)), fst rf, fs')
           | (None, fs') \<Rightarrow>
               (case copy_to_file0 filename (fst rf) fs' of
                  (Panic, r', fs'') \<Rightarrow> (Panic, r', fs'')
                | (Return err, r', fs'') \<Rightarrow>
                    (case Close0 r' of
                       (Panic, r'') \<Rightarrow> (Panic, r'', fs'')
                     | (Return e1, r'') \<Rightarrow>
                         (Return (case err of
                                    None \<Rightarrow> None
                                  | Some e \<Rightarrow> if e = EOF then None else Some (Errorf ''SaveContent error'' e)),
                          r'', fs'')))))"

section \<open>Streams and library stand-ins for evaluation\<close>

text \<open>
  A decompressor that knows a table of streams: it accepts a stream that starts with the
  magic bytes of its format and inflates the streams of its table; any other stream is
  corrupt input. It stands for the library wherever the model is evaluated on a
  concrete stream.
\<close>

definition table_codec :: "byte list \<Rightarrow> (byte list \<times> byte list) list \<Rightarrow> codec" where
  "table_codec magic table =
     \<lparr>check_header =
        (\<lambda>bs. if take (length magic) bs = magic then None else Some (Failure ''invalid header'')),
      inflate =
        (\<lambda>raw. case map_of table raw of
                  Some out \<Rightarrow> (out, None)
                | None \<Rightarrow> ([], Some (Failure ''corrupt input'')))\<rparr>"

text \<open>The gzip stream (25 bytes) and the zlib stream (13 bytes) of the five bytes \<open>hello\<close>.\<close>

definition gzip_hello :: "byte list" where
  "gzip_hello =
     [CHR 0x1F, CHR 0x8B, CHR 0x08, CHR 0x00, CHR 0x00, CHR 0x00, CHR 0x00, CHR 0x00,
      CHR 0x02, CHR 0xFF, CHR 0xCB, CHR 0x48, CHR 0xCD, CHR 0xC9, CHR 0xC9, CHR 0x07,
      CHR 0x00, CHR 0x86, CHR 0xA6, CHR 0x10, CHR 0x36, CHR 0x05, CHR 0x00, CHR 0x00,
      CHR 0x00]"

definition zlib_hello :: "byte list" where
  "zlib_hello =
     [CHR 0x78, CHR 0x9C, CHR 0xCB, CHR 0x48, CHR 0xCD, CHR 0xC9, CHR 0xC9, CHR 0x07,
      CHR 0x00, CHR 0x06, CHR 0x2C, CHR 0x02, CHR 0x15]"

definition gzip_codec :: codec where
  "gzip_codec = table_codec [CHR 0x1F, CHR 0x8B, CHR 0x08] [(gzip_hello, ''hello'')]"

definition zlib_codec :: codec where
  "zlib_codec = table_codec [CHR 0x78] [(zlib_hello, ''hello'')]"

text \<open>
  A JSON parser that knows the two literals \<open>true\<close> and \<open>false\<close> and rejects every
  other input; it is only run on inputs that are not JSON. On no input at all it returns
  \<^verbatim>\<open>io.EOF\<close>, as the decoder behind \<^verbatim>\<open>simplejson.NewJson\<close> does.
\<close>

definition json_literal :: "byte list \<Rightarrow> bool option \<times> error option" where
  "json_literal bs =
     (if bs = [] then (None, Some EOF)
      else if bs = ''true'' then (Some True, None)
      else if bs = ''false'' then (Some False, None)
      else (None, Some (Failure ''invalid JSON'')))"

text \<open>
  A body that has not been read, a raw response with a status, the values of its
  \<^verbatim>\<open>Content-Encoding\<close> header (none when the list is empty), a body and a declared
  length, and a file system without files or failures.
\<close>

definition stream :: "byte list \<Rightarrow> error option \<Rightarrow> body" where
  "stream bs f = \<lparr>pending = bs, failure = f, closed = False, reads = 0\<rparr>"

definition transport_response :: "int \<Rightarrow> string list \<Rightarrow> body \<Rightarrow> int \<Rightarrow> http_response" where
  "transport_response code enc b len =
     \<lparr>Status = [], StatusCode = code,
      Header = (if enc = [] then Map.empty else [''Content-Encoding'' \<mapsto> enc]),
      Body = Some b, ContentLength = len\<rparr>"

definition no_files :: filesystem where
  "no_files = \<lparr>files = Map.empty, create_failure = Map.empty, write_failure = Map.empty\<rparr>"

text \<open>The body of a response of \<^verbatim>\<open>part_000\<close>, when it has one.\<close>

definition body0 :: "response0 \<Rightarrow> body option" where
  "body0 r = (case RawResponse r of None \<Rightarrow> None | Some raw \<Rightarrow> Body raw)"

text \<open>
  The room of a machine that grants a buffer a gigabyte and no more, and an empty body
  with the largest declared length there is, as the response to a \<^verbatim>\<open>HEAD\<close> request
  may have.

  Raw responses, all with status 200: one byte without an encoding; an empty body with a
  declared length of zero, one of unknown length (-1, as for a chunked response), and
  one of unknown length declared \<open>gzip\<close>;
  text that is not compressed under each of the two encodings; the gzip stream of
  \<open>hello\<close> under \<open>gzip\<close> and under \<open>GZIP\<close>, and its zlib stream under \<open>deflate\<close>; and bodies the connection resets, at
  once and after two bytes.
\<close>

definition one_gigabyte :: int where
  "one_gigabyte = 1073741824"

definition huge_declared_length :: http_response where
  "huge_declared_length = transport_response 200 [] (stream [] None) 9223372036854775807"

definition one_byte :: http_response where
  "one_byte = transport_response 200 [] (stream ''a'' None) 1"

definition empty_length_zero :: http_response where
  "empty_length_zero = transport_response 200 [] (stream [] None) 0"

definition empty_unknown_length :: http_response where
  "empty_unknown_length = transport_response 200 [] (stream [] None) (- 1)"

definition empty_gzip :: http_response where
  "empty_gzip = transport_response 200 [''gzip''] (stream [] None) (- 1)"

definition not_gzip :: http_response where
  "not_gzip = transport_response 200 [''gzip''] (stream ''plain text, not gzip'' None) 20"

definition not_deflate :: http_response where
  "not_deflate = transport_response 200 [''deflate''] (stream ''plain text, not zlib'' None) 20"

definition gzipped_hello :: http_response where
  "gzipped_hello = transport_response 200 [''gzip''] (stream gzip_hello None) 25"

definition deflated_hello :: http_response where
  "deflated_hello = transport_response 200 [''deflate''] (stream zlib_hello None) 13"

definition upper_case_gzip :: http_response where
  "upper_case_gzip = transport_response 200 [''GZIP''] (stream gzip_hello None) 25"

definition reset_at_start :: http_response where
  "reset_at_start = transport_response 200 [] (stream [] (Some (Failure ''connection reset''))) 5"

definition reset_after_two :: http_response where
  "reset_after_two = transport_response 200 [] (stream ''ab'' (Some (Failure ''connection reset''))) 5"

section \<open>The read loops in closed form\<close>

text \<open>
  A loop over an open body delivers all its unread bytes and the error of its end, and
  makes one read per buffer filled plus the read that meets the end.
\<close>

lemma ceil_step:
  fixes n L :: nat
  assumes "0 < n" "0 < L"
  shows "Suc ((L - n + n - 1) div n) = (L + n - 1) div n"
proof -
  obtain m where m: "L = Suc m" using assms(2) by (cases L) auto
  have r: "(L + n - 1) div n = Suc (m div n)"
    using assms(1) div_add_self2[of n m] by (simp add: m)
  show ?thesis
  proof (cases "n \<le> L")
    case True
    then have "L - n + n - 1 = m" by (simp add: m)
    then show ?thesis using r by simp
  next
    case False
    then have a: "L - n + n - 1 = n - 1" by simp
    have b: "(n - 1) div n = 0" using assms(1) by simp
    have "m div n = 0" using False by (simp add: m)
    then show ?thesis using a b r by simp
  qed
qed

lemma read_until_error_open:
  "0 < n \<Longrightarrow> \<not> closed b \<Longrightarrow>
     read_until_error n b =
       ((pending b, end_error b),
        b\<lparr>pending := [], reads := reads b + Suc ((length (pending b) + n - 1) div n)\<rparr>)"
proof (induction n b rule: read_until_error.induct)
  case (1 n b)
  show ?case
  proof (cases "pending b = []")
    case True
    with 1(2,3) show ?thesis
      by (subst read_until_error.simps) (simp add: body_Read_def)
  next
    case False
    let ?b' = "b\<lparr>pending := drop n (pending b), reads := Suc (reads b)\<rparr>"
    have rd: "body_Read n b = ((take n (pending b), None), ?b')"
      using False 1(3) by (simp add: body_Read_def)
    have ih: "read_until_error n ?b' =
       ((pending ?b', end_error ?b'),
        ?b'\<lparr>pending := [], reads := reads ?b' + Suc ((length (pending ?b') + n - 1) div n)\<rparr>)"
      using 1(1)[OF _ rd[symmetric] refl refl] 1(2,3) by simp
    have cnt: "Suc ((length (pending b) - n + n - 1) div n) = (length (pending b) + n - 1) div n"
      using ceil_step[of n "length (pending b)"] 1(2) False by simp
    show ?thesis
      using 1(2) cnt
      by (subst read_until_error.simps) (simp add: rd ih end_error_def)
  qed
qed

text \<open>On a closed body the first read fails and nothing is delivered.\<close>

lemma read_until_error_closed:
  "0 < n \<Longrightarrow> closed b \<Longrightarrow>
     read_until_error n b = (([], ErrBodyReadAfterClose), b\<lparr>reads := Suc (reads b)\<rparr>)"
  by (subst read_until_error.simps) (simp add: body_Read_def)

text \<open>
  As long as no error is recorded, the loop over \<^verbatim>\<open>r.Read\<close> of \<^verbatim>\<open>part_000\<close> is the
  loop over the body of the raw response.
\<close>

lemma copy_until_error0_body:
  "internalError r = None \<Longrightarrow> RawResponse r = Some raw \<Longrightarrow> Body raw = Some b \<Longrightarrow>
     copy_until_error0 n r =
       (Return (fst (read_until_error n b)),
        r\<lparr>RawResponse := Some (raw\<lparr>Body := Some (snd (read_until_error n b))\<rparr>)\<rparr>)"
proof (induction n b arbitrary: r raw rule: read_until_error.induct)
  case (1 n b)
  show ?case
  proof (cases "n = 0")
    case True
    then show ?thesis using 1(2,3,4)
      by (subst copy_until_error0.simps, subst (1 2) read_until_error.simps) simp
  next
    case False
    obtain bs e b' where rd: "body_Read n b = ((bs, e), b')"
      by (metis prod.exhaust)
    have r0: "Read0 n r =
        (Return (int (length bs), bs, e), r\<lparr>RawResponse := Some (raw\<lparr>Body := Some b'\<rparr>)\<rparr>)"
      using 1(2,3,4) rd by (simp add: Read0_def)
    show ?thesis
    proof (cases e)
      case (Some err)
      then show ?thesis using False rd r0
        by (subst copy_until_error0.simps, subst (1 2) read_until_error.simps) simp
    next
      case None
      let ?r' = "r\<lparr>RawResponse := Some (raw\<lparr>Body := Some b'\<rparr>)\<rparr>"
      have ih: "copy_until_error0 n ?r' =
         (Return (fst (read_until_error n b')),
          ?r'\<lparr>RawResponse :=
                Some ((raw\<lparr>Body := Some b'\<rparr>)\<lparr>Body := Some (snd (read_until_error n b'))\<rparr>)\<rparr>)"
        using 1(1)[OF False rd[symmetric] refl None, of ?r' "raw\<lparr>Body := Some b'\<rparr>"] 1(2)
        by simp
      show ?thesis using False rd r0 None ih
        by (subst copy_until_error0.simps, subst (1 2) read_until_error.simps)
           (simp split: prod.splits)
    qed
  qed
qed

text \<open>The definitions, grouped for unfolding.\<close>

lemmas library_defs =
  body_Read_def body_Close_def end_error_def ReadAll_def NewReader_def inflate_all_def
  Header_Get_def os_Create_def file_Write_def bytes_Reader_Read_def bytes_of_def

lemmas response_defs =
  NewResponse_def Ok_def load_identity_def load_compressed_def loadContent_def Read_def
  Text_def Content_def SimpleJSON_def JSON_def SaveContent_def
  http_response.defs response.defs

lemmas response0_defs =
  failed0_def received0_def NewResponse0_def Ok0_def Read0_def Close0_def NewReader0_def
  inflate_all0_def copy_identity0_def copy_compressed0_def deferred0_def Buffer_Grow_def
  loadContent0_def
  Text0_def Content0_def Json0_def getContent0_def copy_to_file0_def SaveContent0_def

lemmas fixture_defs =
  table_codec_def gzip_hello_def zlib_hello_def gzip_codec_def zlib_codec_def json_literal_def
  stream_def transport_response_def no_files_def body0_def one_gigabyte_def
  huge_declared_length_def
  one_byte_def empty_length_zero_def empty_unknown_length_def empty_gzip_def not_gzip_def
  not_deflate_def
  gzipped_hello_def deflated_hello_def upper_case_gzip_def reset_at_start_def
  reset_after_two_def

lemmas loops = read_until_error_open read_until_error_closed copy_until_error0_body

section \<open>part_000: a recorded error\<close>

text \<open>Once \<open>internalError\<close> is set, every method returns it and leaves the response alone.\<close>

lemma recorded_error_accessors:
  assumes "internalError r = Some e"
  shows "Read0 n r = (Return (- 1, [], Some e), r)"
    and "Close0 r = (Return (Some e), r)"
    and "loadContent0 room gz zl r = (Return (Some e), r)"
    and "Content0 room gz zl r = (Return (None, Some e), r)"
    and "Text0 room gz zl r = (Return ([], Some e), r)"
    and "Json0 room gz zl parse r = (Return (None, Some e), r)"
    and "SaveContent0 filename (r, fs) = (Return (Some e), r, fs)"
  using assms
  by (simp_all add: Read0_def Close0_def loadContent0_def Content0_def Text0_def Json0_def
      SaveContent0_def)

section \<open>The status predicate\<close>

text \<open>
  Claim C9, as the code has it. \<^verbatim>\<open>Ok\<close> is a function of the response alone: it reads
  no stream, loads nothing and returns nothing but the truth value. In
  \<^verbatim>\<open>response.go\<close> it is true exactly when the status code is in [200, 400): false at
  199, true at 200 and 399, false at 400 and 500. In \<^verbatim>\<open>part_000\<close> it is true exactly
  when, in addition, no internal error is recorded.
\<close>

theorem C9_ok_predicate:
  "Ok r = (200 \<le> StatusCode r \<and> StatusCode r < 400)
   \<and> Ok0 r0 = (internalError r0 = None \<and> 200 \<le> StatusCode0 r0 \<and> StatusCode0 r0 < 400)
   \<and> Ok (r\<lparr>StatusCode := 199\<rparr>) = False
   \<and> Ok (r\<lparr>StatusCode := 200\<rparr>) = True
   \<and> Ok (r\<lparr>StatusCode := 399\<rparr>) = True
   \<and> Ok (r\<lparr>StatusCode := 400\<rparr>) = False
   \<and> Ok (r\<lparr>StatusCode := 500\<rparr>) = False"
  by (auto simp: Ok_def Ok0_def split: option.splits)

text \<open>The theorem at a response of each file with status 200.\<close>

theorem C9_ok_predicate_witness:
  "Ok (NewResponse one_byte) = True
   \<and> Ok0 (received0 one_byte) = True
   \<and> Ok0 (failed0 (Failure ''connection refused'')) = False"
  using C9_ok_predicate
    [of "NewResponse one_byte"
        "received0 one_byte"]
    C9_ok_predicate
    [of "NewResponse one_byte"
        "failed0 (Failure ''connection refused'')"]
  by (simp add: response_defs response0_defs fixture_defs)

text \<open>
  Claim C9 as stated fails in \<^verbatim>\<open>part_000\<close>: a response with status 200 whose body
  breaks with a connection reset is passed to \<^verbatim>\<open>Json\<close>, which records the read
  error; from then on \<^verbatim>\<open>Ok\<close> is false although the status code is still 200.
\<close>

theorem C9_counterexample:
  "NewResponse0 (Some reset_at_start) None
     = Return (received0 reset_at_start, None)
   \<and> fst (Json0 one_gigabyte gzip_codec zlib_codec json_literal
        (received0 reset_at_start))
     = Return (None, Some (Errorf ''Json error'' (Failure ''connection reset'')))
   \<and> StatusCode0 (snd (Json0 one_gigabyte gzip_codec zlib_codec json_literal
        (received0 reset_at_start))) = 200
   \<and> Ok0 (snd (Json0 one_gigabyte gzip_codec zlib_codec json_literal
        (received0 reset_at_start))) = False"
  by (simp add: library_defs response0_defs fixture_defs loops)

section \<open>part_000: a response built from a transport error\<close>

text \<open>
  Claim C10. In \<^verbatim>\<open>part_000\<close>, \<^verbatim>\<open>NewResponse\<close> called with an error returns a response
  that records it (and the error, wrapped). On that response \<^verbatim>\<open>Ok\<close> is false, whatever
  the status code is set to, and \<^verbatim>\<open>Read\<close>, \<^verbatim>\<open>Close\<close>, \<^verbatim>\<open>Content\<close>, \<^verbatim>\<open>Text\<close>,
  \<^verbatim>\<open>Json\<close> and \<^verbatim>\<open>SaveContent\<close> all return the recorded error and change neither the
  response nor the file system.
\<close>

theorem C10_transport_error_recorded:
  "NewResponse0 rawResp (Some e) = Return (failed0 e, Some (Errorf ''NewResponse error'' e))
   \<and> internalError (failed0 e) = Some e
   \<and> Ok0 (failed0 e) = False
   \<and> Ok0 ((failed0 e)\<lparr>StatusCode0 := code\<rparr>) = False
   \<and> Read0 n (failed0 e) = (Return (- 1, [], Some e), failed0 e)
   \<and> Close0 (failed0 e) = (Return (Some e), failed0 e)
   \<and> Content0 room gz zl (failed0 e) = (Return (None, Some e), failed0 e)
   \<and> Text0 room gz zl (failed0 e) = (Return ([], Some e), failed0 e)
   \<and> Json0 room gz zl parse (failed0 e) = (Return (None, Some e), failed0 e)
   \<and> SaveContent0 filename (failed0 e, fs) = (Return (Some e), failed0 e, fs)"
proof -
  have ie: "internalError (failed0 e) = Some e"
    by (simp add: failed0_def)
  show ?thesis
    using recorded_error_accessors[OF ie]
    by (simp add: NewResponse0_def Ok0_def ie) (simp add: failed0_def)
qed

text \<open>The theorem at a refused connection and the status code 200.\<close>

theorem C10_transport_error_recorded_witness:
  "Ok0 ((failed0 (Failure ''connection refused''))\<lparr>StatusCode0 := 200\<rparr>) = False
   \<and> Content0 one_gigabyte gzip_codec zlib_codec (failed0 (Failure ''connection refused''))
       = (Return (None, Some (Failure ''connection refused'')), failed0 (Failure ''connection refused''))"
  using C10_transport_error_recorded
    [of None "Failure ''connection refused''" 200 512 one_gigabyte gzip_codec zlib_codec json_literal
        "''/tmp/x''" no_files]
  by simp

section \<open>response.go: the cache\<close>

text \<open>A cache that is not nil is returned as it is, and the response is not touched.\<close>

lemma loadContent_cached:
  "content r = Some c \<Longrightarrow> loadContent gz zl r = (Return (Some c, None), r)"
  by (simp add: loadContent_def)

text \<open>A load that succeeds returns a slice that is not nil and leaves it in the cache.\<close>

lemma load_identity_caches:
  "load_identity b r = (Return (c, None), r') \<Longrightarrow> c \<noteq> None \<and> content r' = c"
  by (auto simp: load_identity_def ReadAll_def body_Close_def
      split: prod.splits option.splits if_splits)

lemma load_compressed_caches:
  "load_compressed k b r = (Return (c, None), r') \<Longrightarrow> c \<noteq> None \<and> content r' = c"
  by (auto simp: load_compressed_def split: prod.splits option.splits if_splits)

lemma loadContent_caches:
  assumes "loadContent gz zl r = (Return (c, None), r')"
  shows "c \<noteq> None \<and> content r' = c"
proof (cases "content r")
  case (Some x)
  with assms have "c = Some x" "r' = r"
    by (simp_all add: loadContent_def)
  with Some show ?thesis by simp
next
  case None
  then show ?thesis
    using assms load_identity_caches load_compressed_caches
    by (auto simp: loadContent_def split: option.splits if_splits)
qed

lemma Content_success:
  "Content gz zl r = (Return (c, None), r') \<Longrightarrow> loadContent gz zl r = (Return (c, None), r')"
  by (auto simp: Content_def split: prod.splits outcome.splits option.splits)

lemma Content_repeat:
  assumes "Content gz zl r = (Return (c, None), r')"
  shows "Content gz zl r' = (Return (c, None), r')"
    and "Text gz zl r' = (Return (bytes_of c, None), r')"
    and "JSON gz zl parse r' = (Return (parse (bytes_of c)), r')"
    and "SimpleJSON gz zl parse r' = (Return (parse (bytes_of c)), r')"
    and "c \<noteq> None"
proof -
  obtain x where x: "c = Some x" "content r' = Some x"
    using loadContent_caches[OF Content_success[OF assms]] by auto
  have l: "loadContent gz zl r' = (Return (c, None), r')"
    using x by (simp add: loadContent_cached)
  show "Content gz zl r' = (Return (c, None), r')"
    and "Text gz zl r' = (Return (bytes_of c, None), r')"
    and "JSON gz zl parse r' = (Return (parse (bytes_of c)), r')"
    and "SimpleJSON gz zl parse r' = (Return (parse (bytes_of c)), r')"
    and "c \<noteq> None"
    using l x by (simp_all add: Content_def Text_def JSON_def SimpleJSON_def)
qed

section \<open>response.go: Close\<close>

text \<open>
  With bytes in the cache every \<^verbatim>\<open>Read\<close> starts a new reader at the first byte and
  reports no error, so the loop of \<^verbatim>\<open>Discard.ReadFrom\<close> is still running after any
  number of reads.
\<close>

lemma discard_ReadFrom_cached:
  "content r = Some c \<Longrightarrow> c \<noteq> [] \<Longrightarrow> discard_ReadFrom k gz zl r = None"
  by (induction k) (simp_all add: Read_def loadContent_cached bytes_Reader_Read_def bytes_of_def)

lemma Close_after_load:
  assumes "loadContent gz zl r = (Return (Some c, None), r')" "c \<noteq> []"
  shows "Close k gz zl r = None"
proof (cases k)
  case 0
  then show ?thesis by (simp add: Close_def)
next
  case (Suc j)
  have c': "content r' = Some c" using loadContent_caches[OF assms(1)] by simp
  have "discard_ReadFrom (Suc j) gz zl r = discard_ReadFrom j gz zl r'"
    using assms by (simp add: Read_def bytes_Reader_Read_def bytes_of_def)
  then show ?thesis using Suc discard_ReadFrom_cached[OF c' assms(2)]
    by (simp add: Close_def)
qed

text \<open>
  Claim C4 says that \<^verbatim>\<open>Close\<close> terminates for every response. In \<^verbatim>\<open>response.go\<close>
  it does not: for the response with the one-byte body \<open>a\<close> and no encoding,
  \<^verbatim>\<open>Close\<close> has not returned after \<open>k\<close> reads, for every \<open>k\<close> and whatever the
  decompressors are.
\<close>

theorem C4_close_never_returns:
  "Close k gz zl (NewResponse one_byte) = None"
proof -
  have "loadContent gz zl (NewResponse one_byte)
      = (Return (Some ''a'', None), snd (loadContent gz zl (NewResponse one_byte)))"
    by (simp add: library_defs response_defs fixture_defs loops)
  then show ?thesis
    using Close_after_load by blast
qed

text \<open>The theorem at a bound of a thousand reads and the decompressors of the evaluation.\<close>

theorem C4_close_never_returns_witness:
  "Close 1000 gzip_codec zlib_codec (NewResponse one_byte) = None"
  using C4_close_never_returns [of 1000 gzip_codec zlib_codec]
  by simp

section \<open>The deferred close after a failed NewReader\<close>

text \<open>
  Claim C3 says that \<^verbatim>\<open>loadContent\<close> releases the body and the decompressor on every
  path without a fault, and returns the error when the decompressor cannot be set up.
  Both files panic there instead. For a body of plain text declared \<open>gzip\<close> or
  \<open>deflate\<close>, \<^verbatim>\<open>loadContent\<close> of \<^verbatim>\<open>response.go\<close> panics and leaves the body open;
  \<^verbatim>\<open>loadContent\<close> of \<^verbatim>\<open>part_000\<close> panics after it has closed the body. On the
  path without failure, \<^verbatim>\<open>response.go\<close> leaves the body of a gzip response open too.
\<close>

theorem C3_failed_setup_panics:
  "fst (loadContent gzip_codec zlib_codec (NewResponse not_gzip)) = Panic
   \<and> map_option closed (Body (snd (loadContent gzip_codec zlib_codec (NewResponse not_gzip)))) = Some False
   \<and> fst (loadContent gzip_codec zlib_codec (NewResponse not_deflate)) = Panic
   \<and> map_option closed (Body (snd (loadContent gzip_codec zlib_codec (NewResponse not_deflate)))) = Some False
   \<and> fst (loadContent0 one_gigabyte gzip_codec zlib_codec (received0 not_gzip)) = Panic
   \<and> map_option closed (body0 (snd (loadContent0 one_gigabyte gzip_codec zlib_codec (received0 not_gzip)))) = Some True
   \<and> fst (loadContent0 one_gigabyte gzip_codec zlib_codec (received0 not_deflate)) = Panic
   \<and> fst (loadContent gzip_codec zlib_codec (NewResponse gzipped_hello)) = Return (Some ''hello'', None)
   \<and> map_option closed (Body (snd (loadContent gzip_codec zlib_codec (NewResponse gzipped_hello)))) = Some False"
  by (simp add: library_defs response_defs response0_defs fixture_defs loops)

section \<open>part_000: what the methods leave unchanged\<close>

text \<open>No read, close or load changes the recorded error; reads and closes keep the buffer.\<close>

lemma Read0_frame:
  "internalError (snd (Read0 n r)) = internalError r"
  "content0 (snd (Read0 n r)) = content0 r"
  by (simp_all add: Read0_def split: option.splits prod.splits)

lemma copy_until_error0_frame:
  "internalError (snd (copy_until_error0 n r)) = internalError r
   \<and> content0 (snd (copy_until_error0 n r)) = content0 r"
proof (induction n r rule: copy_until_error0.induct)
  case (1 n r)
  show ?case
  proof (cases "n = 0")
    case True
    then show ?thesis by (subst (1 2) copy_until_error0.simps) simp
  next
    case False
    obtain x r' where rd: "Read0 n r = (x, r')" by (metis prod.exhaust)
    have fr: "internalError r' = internalError r" "content0 r' = content0 r"
      using Read0_frame[of n r] rd by simp_all
    show ?thesis
    proof (cases x)
      case Panic
      then show ?thesis using False rd fr by (subst (1 2) copy_until_error0.simps) simp
    next
      case (Return t)
      obtain m bs e where t: "t = (m, bs, e)" by (metis prod.exhaust)
      show ?thesis
      proof (cases e)
        case (Some err)
        then show ?thesis using False rd fr Return t
          by (subst (1 2) copy_until_error0.simps) simp
      next
        case None
        have ih: "internalError (snd (copy_until_error0 n r')) = internalError r'
          \<and> content0 (snd (copy_until_error0 n r')) = content0 r'"
          using 1[OF False rd[symmetric] Return t[symmetric] refl None] by simp
        show ?thesis using False rd fr Return t None ih
          by (subst (1 2) copy_until_error0.simps)
             (auto split: prod.splits outcome.splits)
      qed
    qed
  qed
qed

lemma Close0_frame:
  "internalError (snd (Close0 r)) = internalError r \<and> content0 (snd (Close0 r)) = content0 r"
  using copy_until_error0_frame[of 8192 r]
  by (auto simp: Close0_def body_Close_def split: option.splits prod.splits outcome.splits)

lemma NewReader0_frame:
  "internalError (snd (NewReader0 c r)) = internalError r"
  using Read0_frame(1)[of 4096 r]
  by (auto simp: NewReader0_def split: prod.splits outcome.splits option.splits)

lemma inflate_all0_frame:
  "internalError (snd (inflate_all0 c buffered r)) = internalError r"
  using copy_until_error0_frame[of 4096 r]
  by (auto simp: inflate_all0_def split: prod.splits outcome.splits option.splits)

lemma copy_identity0_frame:
  "internalError (snd (copy_identity0 r)) = internalError r"
  using copy_until_error0_frame[of 512 r]
  by (auto simp: copy_identity0_def split: prod.splits outcome.splits option.splits)

lemma copy_compressed0_frame:
  "internalError (snd (copy_compressed0 c r)) = internalError r"
proof -
  obtain x r1 where n: "NewReader0 c r = (x, r1)" by (metis prod.exhaust)
  have f1: "internalError r1 = internalError r"
    using NewReader0_frame[of c r] n by simp
  show ?thesis
  proof (cases x)
    case Panic
    then show ?thesis using n f1 by (simp add: copy_compressed0_def)
  next
    case (Return t)
    obtain p err where t: "t = (p, err)" by (metis prod.exhaust)
    show ?thesis
    proof (cases p)
      case None
      then show ?thesis using n f1 Return t by (simp add: copy_compressed0_def)
    next
      case (Some buffered)
      have "internalError (snd (inflate_all0 c buffered r1)) = internalError r1"
        by (rule inflate_all0_frame)
      then show ?thesis using n f1 Return t Some
        by (auto simp: copy_compressed0_def split: prod.splits outcome.splits)
    qed
  qed
qed

lemma deferred0_frame:
  "internalError (snd (deferred0 (x, r))) = internalError r"
proof (cases x)
  case Panic
  then show ?thesis by (simp add: deferred0_def)
next
  case (Return t)
  obtain err rd where t: "t = (err, rd)" by (metis prod.exhaust)
  obtain y r1 where c1: "Close0 r = (y, r1)" by (metis prod.exhaust)
  have f1: "internalError r1 = internalError r" using Close0_frame[of r] c1 by simp
  obtain z r2 where c2: "Close0 r1 = (z, r2)" by (metis prod.exhaust)
  have f2: "internalError r2 = internalError r1" using Close0_frame[of r1] c2 by simp
  show ?thesis using Return t c1 c2 f1 f2
    by (simp add: deferred0_def split: outcome.splits reader0.splits)
qed

lemma loadContent0_frame:
  "internalError (snd (loadContent0 room gz zl r)) = internalError r"
proof -
  have a: "internalError (snd (deferred0 (copy_compressed0 c r))) = internalError r" for c
    using deferred0_frame[of "fst (copy_compressed0 c r)" "snd (copy_compressed0 c r)"]
      copy_compressed0_frame[of c r] by simp
  have b: "internalError (snd (deferred0 (copy_identity0 r))) = internalError r"
    using deferred0_frame[of "fst (copy_identity0 r)" "snd (copy_identity0 r)"]
      copy_identity0_frame[of r] by simp
  show ?thesis
    using a b by (simp add: loadContent0_def Buffer_Grow_def split: option.splits)
qed

text \<open>
  When \<^verbatim>\<open>Content\<close> of \<^verbatim>\<open>part_000\<close> has returned bytes, the buffer holds them, and
  later calls return them without touching the response.
\<close>

lemma Content0_repeat:
  assumes "Content0 room gz zl r = (Return (Some c, None), r')"
  shows "Content0 room gz zl r' = (Return (Some c, None), r')"
    and "Text0 room gz zl r' = (Return (c, None), r')"
    and "Json0 room gz zl parse r' = (Return (parse c), r')"
proof -
  obtain x where l: "loadContent0 room gz zl r = (x, r')"
    using assms
    by (auto simp: Content0_def split: prod.splits outcome.splits option.splits if_splits)
  have x: "x = Return None" and c: "content0 r' = Some c" "c \<noteq> []"
    using assms l by (auto simp: Content0_def split: outcome.splits option.splits if_splits)
  have "internalError r = None"
    using l x by (auto simp: loadContent0_def split: option.splits)
  then have ie: "internalError r' = None"
    using loadContent0_frame[of room gz zl r] l by simp
  have l': "loadContent0 room gz zl r' = (Return None, r')"
    using ie c by (simp add: loadContent0_def)
  show c': "Content0 room gz zl r' = (Return (Some c, None), r')"
    using l' c by (simp add: Content0_def)
  show "Text0 room gz zl r' = (Return (c, None), r')"
    using l' c by (simp add: Text0_def)
  show "Json0 room gz zl parse r' = (Return (parse c), r')"
    using c' ie by (simp add: Json0_def bytes_of_def)
qed

section \<open>part_000: an empty buffer is read again\<close>

text \<open>
  Claim C1 says that repeated calls of a content accessor return the same bytes and read
  the body once, also when the decoded body is empty. \<^verbatim>\<open>part_000\<close> takes an empty
  buffer for one that was never filled. For the empty body of unknown length the first
  \<^verbatim>\<open>Content\<close> returns no bytes and no error, after three reads of the body (the copy and
  the two deferred closes) and with the body closed; the second \<^verbatim>\<open>Content\<close> reads the
  closed body three more times and returns the error of a read after close, whatever
  the decompressors and the room for the buffer are.
\<close>

theorem C1_empty_body_read_again:
  "fst (Content0 room gz zl (received0 empty_unknown_length)) = Return (None, None)
   \<and> body0 (snd (Content0 room gz zl (received0 empty_unknown_length)))
       = Some \<lparr>pending = [], failure = None, closed = True, reads = 3\<rparr>
   \<and> fst (Content0 room gz zl
            (snd (Content0 room gz zl (received0 empty_unknown_length))))
       = Return (None, Some ErrBodyReadAfterClose)
   \<and> body0 (snd (Content0 room gz zl
            (snd (Content0 room gz zl (received0 empty_unknown_length)))))
       = Some \<lparr>pending = [], failure = None, closed = True, reads = 6\<rparr>"
  by (simp add: library_defs response0_defs fixture_defs loops)

section \<open>part_000: SaveContent\<close>

text \<open>
  Claim C7 says that the file \<^verbatim>\<open>SaveContent\<close> writes holds the decoded payload, the
  bytes \<^verbatim>\<open>Content\<close> returns, also for a compressed body. \<^verbatim>\<open>SaveContent\<close> of
  \<^verbatim>\<open>part_000\<close> never decodes: for the gzip stream of \<open>hello\<close> it succeeds and the
  file holds the 25 compressed bytes, while \<^verbatim>\<open>Content\<close> on the same response returns
  \<open>hello\<close>; after the save the body is closed and \<^verbatim>\<open>Content\<close> panics. When
  \<^verbatim>\<open>Content\<close> has run first, the file holds \<open>hello\<close>, but the save empties the buffer.
\<close>

theorem C7_saved_file_not_decoded:
  "fst (SaveContent0 ''/tmp/x'' (received0 gzipped_hello, no_files)) = Return None
   \<and> files (snd (snd (SaveContent0 ''/tmp/x'' (received0 gzipped_hello, no_files)))) ''/tmp/x''
       = Some gzip_hello
   \<and> fst (Content0 one_gigabyte gzip_codec zlib_codec (received0 gzipped_hello)) = Return (Some ''hello'', None)
   \<and> fst (Content0 one_gigabyte gzip_codec zlib_codec
            (fst (snd (SaveContent0 ''/tmp/x'' (received0 gzipped_hello, no_files))))) = Panic
   \<and> files (snd (snd (SaveContent0 ''/tmp/x''
            (snd (Content0 one_gigabyte gzip_codec zlib_codec (received0 gzipped_hello)), no_files)))) ''/tmp/x''
       = Some ''hello''
   \<and> content0 (fst (snd (SaveContent0 ''/tmp/x''
            (snd (Content0 one_gigabyte gzip_codec zlib_codec (received0 gzipped_hello)), no_files))))
       = Some []"
  by (simp add: library_defs response0_defs fixture_defs loops)

section \<open>part_000: Content after a parse failure\<close>

text \<open>
  Claim C8 says that after a JSON accessor has failed to parse the decoded body,
  \<^verbatim>\<open>Content\<close> still succeeds with the cached bytes. In \<^verbatim>\<open>part_000\<close>, for the empty
  body of unknown length (no bytes are not JSON), \<^verbatim>\<open>Json\<close> returns what the parser
  makes of no bytes (\<^verbatim>\<open>io.EOF\<close>) and records nothing, and the \<^verbatim>\<open>Content\<close> that
  follows reads the closed body again and fails, whatever the parser, the decompressors
  and the room for the buffer are.
\<close>

theorem C8_content_fails_after_parse_failure:
  "fst (Json0 room gz zl parse (received0 empty_unknown_length)) = Return (parse [])
   \<and> json_literal [] = (None, Some EOF)
   \<and> internalError (snd (Json0 room gz zl parse (received0 empty_unknown_length))) = None
   \<and> content0 (snd (Json0 room gz zl parse (received0 empty_unknown_length))) = Some []
   \<and> fst (Content0 room gz zl (snd (Json0 room gz zl parse (received0 empty_unknown_length))))
       = Return (None, Some ErrBodyReadAfterClose)"
  by (simp add: library_defs response0_defs fixture_defs loops)

section \<open>The switch on the header value\<close>

text \<open>
  What \<^verbatim>\<open>Content\<close> returns for a body that is open and ends cleanly, by the value of
  the header: the body's bytes as they are, or what the decompressor makes of them.
\<close>

lemma Content_identity:
  assumes "content r = None" "Body r = Some b" "\<not> closed b" "failure b = None"
    and "Header_Get (Header r) ''Content-Encoding'' \<noteq> ''gzip''"
    and "Header_Get (Header r) ''Content-Encoding'' \<noteq> ''deflate''"
  shows "fst (Content gz zl r) = Return (Some (pending b), None)"
  using assms
  by (simp add: Content_def loadContent_def load_identity_def ReadAll_def body_Close_def
      end_error_def read_until_error_open)

lemma load_compressed_inflates:
  assumes "\<not> closed b" "failure b = None" "pending b \<noteq> []"
    and "check_header c (take 4096 (pending b)) = None"
    and "inflate c (pending b) = (out, None)"
  shows "fst (load_compressed c b r) = Return (Some out, None)"
  using assms
  by (simp add: load_compressed_def NewReader_def inflate_all_def body_Read_def
      end_error_def read_until_error_open)

lemma Content_gzip:
  assumes "content r = None" "Body r = Some b" "\<not> closed b" "failure b = None"
    and "pending b \<noteq> []"
    and "Header_Get (Header r) ''Content-Encoding'' = ''gzip''"
    and "check_header gz (take 4096 (pending b)) = None"
    and "inflate gz (pending b) = (out, None)"
  shows "fst (Content gz zl r) = Return (Some out, None)"
proof -
  obtain x r' where l: "load_compressed gz b r = (x, r')" by (metis prod.exhaust)
  have "x = Return (Some out, None)"
    using load_compressed_inflates[OF assms(3,4,5,7,8), of r] l by simp
  then show ?thesis using assms(1,2,6) l
    by (simp add: Content_def loadContent_def)
qed

lemma Content_deflate:
  assumes "content r = None" "Body r = Some b" "\<not> closed b" "failure b = None"
    and "pending b \<noteq> []"
    and "Header_Get (Header r) ''Content-Encoding'' = ''deflate''"
    and "check_header zl (take 4096 (pending b)) = None"
    and "inflate zl (pending b) = (out, None)"
  shows "fst (Content gz zl r) = Return (Some out, None)"
proof -
  obtain x r' where l: "load_compressed zl b r = (x, r')" by (metis prod.exhaust)
  have "x = Return (Some out, None)"
    using load_compressed_inflates[OF assms(3,4,5,7,8), of r] l by simp
  then show ?thesis using assms(1,2,6) l
    by (simp add: Content_def loadContent_def)
qed

lemma Content0_identity:
  assumes "internalError r = None" "content0 r = Some []" "RawResponse r = Some raw"
    and "Body raw = Some b" "\<not> closed b" "failure b = None"
    and "ContentLength raw \<noteq> 0" "ContentLength raw \<le> room"
    and "Header_Get (Header0 r) ''Content-Encoding'' \<noteq> ''gzip''"
    and "Header_Get (Header0 r) ''Content-Encoding'' \<noteq> ''deflate''"
  shows "fst (Content0 room gz zl r) = Return (if pending b = [] then None else Some (pending b), None)"
  using assms
  by (simp add: Content0_def loadContent0_def Buffer_Grow_def deferred0_def copy_identity0_def
      Close0_def body_Close_def end_error_def loops)

lemma Content0_length_zero:
  assumes "internalError r = None" "content0 r = Some []" "RawResponse r = Some raw"
    and "ContentLength raw = 0"
  shows "Content0 room gz zl r = (Return (None, None), r)"
  using assms by (simp add: Content0_def loadContent0_def)

lemma deferred0_compressed_inflates:
  assumes "internalError r = None" "content0 r = Some []" "RawResponse r = Some raw"
    and "Body raw = Some b" "\<not> closed b" "failure b = None"
    and "pending b \<noteq> []"
    and "check_header c (take 4096 (pending b)) = None"
    and "inflate c (pending b) = (out, None)"
  shows "fst (deferred0 (copy_compressed0 c r)) = Return None
     \<and> content0 (snd (deferred0 (copy_compressed0 c r))) = Some out"
  using assms
  by (simp add: deferred0_def copy_compressed0_def NewReader0_def inflate_all0_def Read0_def
      Close0_def body_Read_def body_Close_def end_error_def loops)

lemma Content0_gzip:
  assumes "internalError r = None" "content0 r = Some []" "RawResponse r = Some raw"
    and "Body raw = Some b" "\<not> closed b" "failure b = None"
    and "pending b \<noteq> []" "ContentLength raw \<noteq> 0"
    and "Header_Get (Header0 r) ''Content-Encoding'' = ''gzip''"
    and "check_header gz (take 4096 (pending b)) = None"
    and "inflate gz (pending b) = (out, None)"
    and "ContentLength raw \<le> room"
  shows "fst (Content0 room gz zl r) = Return (if out = [] then None else Some out, None)"
proof -
  obtain x r' where d: "deferred0 (copy_compressed0 gz r) = (x, r')" by (metis prod.exhaust)
  have "x = Return None" "content0 r' = Some out"
    using deferred0_compressed_inflates[OF assms(1-7) assms(10,11)] d by simp_all
  then show ?thesis using assms(1,2,3,8,9,12) d
    by (simp add: Content0_def loadContent0_def Buffer_Grow_def)
qed

lemma Content0_deflate:
  assumes "internalError r = None" "content0 r = Some []" "RawResponse r = Some raw"
    and "Body raw = Some b" "\<not> closed b" "failure b = None"
    and "pending b \<noteq> []" "ContentLength raw \<noteq> 0"
    and "Header_Get (Header0 r) ''Content-Encoding'' = ''deflate''"
    and "check_header zl (take 4096 (pending b)) = None"
    and "inflate zl (pending b) = (out, None)"
    and "ContentLength raw \<le> room"
  shows "fst (Content0 room gz zl r) = Return (if out = [] then None else Some out, None)"
proof -
  obtain x r' where d: "deferred0 (copy_compressed0 zl r) = (x, r')" by (metis prod.exhaust)
  have "x = Return None" "content0 r' = Some out"
    using deferred0_compressed_inflates[OF assms(1-7) assms(10,11)] d by simp_all
  then show ?thesis using assms(1,2,3,8,9,12) d
    by (simp add: Content0_def loadContent0_def Buffer_Grow_def)
qed

text \<open>
  Claim C6, as the code has it. The value of the \<^verbatim>\<open>Content-Encoding\<close> header is
  compared as it is, case included, with \<open>gzip\<close> and \<open>deflate\<close>. For a response not
  yet loaded whose body is open and ends cleanly: under \<open>gzip\<close> (\<open>deflate\<close>), when
  the gzip (zlib) reader accepts the header of the stream and inflates it to \<open>out\<close>,
  \<^verbatim>\<open>Content\<close> returns \<open>out\<close>; under any other value, or without the header, it
  returns the bytes of the body unchanged. \<^verbatim>\<open>part_000\<close> does the same for a body
  that is not empty and whose declared length is not zero and not beyond the room the
  buffer can be grown to, except that it returns nil when the bytes inflate to none.
\<close>

theorem C6_dispatch_on_exact_value:
  "(content r = None \<and> Body r = Some b \<and> \<not> closed b \<and> failure b = None \<longrightarrow>
      (Header_Get (Header r) ''Content-Encoding'' = ''gzip'' \<and> pending b \<noteq> []
         \<and> check_header gz (take 4096 (pending b)) = None \<and> inflate gz (pending b) = (out, None)
       \<longrightarrow> fst (Content gz zl r) = Return (Some out, None))
    \<and> (Header_Get (Header r) ''Content-Encoding'' = ''deflate'' \<and> pending b \<noteq> []
         \<and> check_header zl (take 4096 (pending b)) = None \<and> inflate zl (pending b) = (out, None)
       \<longrightarrow> fst (Content gz zl r) = Return (Some out, None))
    \<and> (Header_Get (Header r) ''Content-Encoding'' \<noteq> ''gzip''
         \<and> Header_Get (Header r) ''Content-Encoding'' \<noteq> ''deflate''
       \<longrightarrow> fst (Content gz zl r) = Return (Some (pending b), None)))
   \<and> (Body raw = Some b \<and> \<not> closed b \<and> failure b = None \<and> pending b \<noteq> []
        \<and> ContentLength raw \<noteq> 0 \<and> ContentLength raw \<le> room \<longrightarrow>
      (Header_Get (Header raw) ''Content-Encoding'' = ''gzip''
         \<and> check_header gz (take 4096 (pending b)) = None \<and> inflate gz (pending b) = (out, None)
       \<longrightarrow> fst (Content0 room gz zl (received0 raw)) = Return (if out = [] then None else Some out, None))
    \<and> (Header_Get (Header raw) ''Content-Encoding'' = ''deflate''
         \<and> check_header zl (take 4096 (pending b)) = None \<and> inflate zl (pending b) = (out, None)
       \<longrightarrow> fst (Content0 room gz zl (received0 raw)) = Return (if out = [] then None else Some out, None))
    \<and> (Header_Get (Header raw) ''Content-Encoding'' \<noteq> ''gzip''
         \<and> Header_Get (Header raw) ''Content-Encoding'' \<noteq> ''deflate''
       \<longrightarrow> fst (Content0 room gz zl (received0 raw)) = Return (Some (pending b), None)))"
proof -
  have r0: "internalError (received0 raw) = None" "content0 (received0 raw) = Some []"
    "RawResponse (received0 raw) = Some raw" "Header0 (received0 raw) = Header raw"
    by (simp_all add: received0_def)
  show ?thesis
    using Content_gzip[of r b gz out zl] Content_deflate[of r b zl out gz]
      Content_identity[of r b gz zl]
      Content0_gzip[OF r0(1,2,3), where b = b and gz = gz and out = out and zl = zl and room = room]
      Content0_deflate[OF r0(1,2,3), where b = b and gz = gz and out = out and zl = zl and room = room]
      Content0_identity[OF r0(1,2,3), where b = b and gz = gz and zl = zl and room = room]
    by (simp add: r0)
qed

text \<open>
  The theorem at the gzip stream of \<open>hello\<close> under \<open>gzip\<close>, its zlib stream under
  \<open>deflate\<close>, and the one-byte body without the header.
\<close>

theorem C6_dispatch_on_exact_value_witness:
  "content (NewResponse gzipped_hello) = None
   \<and> Body (NewResponse gzipped_hello) = Some (stream gzip_hello None)
   \<and> Header_Get (Header (NewResponse gzipped_hello)) ''Content-Encoding'' = ''gzip''
   \<and> check_header gzip_codec (take 4096 gzip_hello) = None
   \<and> inflate gzip_codec gzip_hello = (''hello'', None)
   \<and> ContentLength gzipped_hello \<le> one_gigabyte
   \<and> fst (Content gzip_codec zlib_codec (NewResponse gzipped_hello)) = Return (Some ''hello'', None)
   \<and> fst (Content0 one_gigabyte gzip_codec zlib_codec (received0 gzipped_hello)) = Return (Some ''hello'', None)
   \<and> Header_Get (Header (NewResponse deflated_hello)) ''Content-Encoding'' = ''deflate''
   \<and> fst (Content gzip_codec zlib_codec (NewResponse deflated_hello)) = Return (Some ''hello'', None)
   \<and> fst (Content0 one_gigabyte gzip_codec zlib_codec (received0 deflated_hello)) = Return (Some ''hello'', None)
   \<and> Header_Get (Header (NewResponse one_byte)) ''Content-Encoding'' = []
   \<and> fst (Content gzip_codec zlib_codec (NewResponse one_byte)) = Return (Some ''a'', None)
   \<and> fst (Content0 one_gigabyte gzip_codec zlib_codec (received0 one_byte)) = Return (Some ''a'', None)"
  using C6_dispatch_on_exact_value
    [where r = "NewResponse gzipped_hello" and b = "stream gzip_hello None" and gz = gzip_codec
       and out = "''hello''" and zl = zlib_codec and raw = gzipped_hello and room = one_gigabyte]
    C6_dispatch_on_exact_value
    [where r = "NewResponse deflated_hello" and b = "stream zlib_hello None" and gz = gzip_codec
       and out = "''hello''" and zl = zlib_codec and raw = deflated_hello and room = one_gigabyte]
    C6_dispatch_on_exact_value
    [where r = "NewResponse one_byte" and b = "stream ''a'' None" and gz = gzip_codec
       and out = "''a''" and zl = zlib_codec and raw = one_byte and room = one_gigabyte]
  by (simp add: deflated_hello_def fixture_defs NewResponse_def Header_Get_def
      http_response.defs response.defs)

text \<open>
  Claim C6 as stated, with a match that ignores case, fails: under the value \<open>GZIP\<close>
  both files return the 25 compressed bytes, where under \<open>gzip\<close> they return
  \<open>hello\<close>.
\<close>

theorem C6_counterexample:
  "Header_Get (Header upper_case_gzip) ''Content-Encoding'' = ''GZIP''
   \<and> fst (Content gzip_codec zlib_codec (NewResponse upper_case_gzip)) = Return (Some gzip_hello, None)
   \<and> fst (Content0 one_gigabyte gzip_codec zlib_codec (received0 upper_case_gzip)) = Return (Some gzip_hello, None)
   \<and> fst (Content gzip_codec zlib_codec (NewResponse gzipped_hello)) = Return (Some ''hello'', None)
   \<and> fst (Content0 one_gigabyte gzip_codec zlib_codec (received0 gzipped_hello)) = Return (Some ''hello'', None)"
  by (simp add: library_defs response_defs response0_defs fixture_defs loops)

section \<open>The empty body\<close>

text \<open>
  Claim C5, as the code has it. For a body of no bytes that is open and ends cleanly,
  under a header value other than \<open>gzip\<close> and \<open>deflate\<close> (or without the header):
  \<^verbatim>\<open>Content\<close> of \<^verbatim>\<open>response.go\<close> returns the empty slice that is not nil, and no
  error; whenever it succeeds, its slice is not nil. \<^verbatim>\<open>Content\<close> of \<^verbatim>\<open>part_000\<close>
  returns nil and no error when the declared length is not beyond the room the buffer
  can be grown to, and does so under every header when the declared length is zero.
\<close>

theorem C5_empty_body:
  "(content r = None \<and> Body r = Some b \<and> pending b = [] \<and> failure b = None \<and> \<not> closed b
      \<and> Header_Get (Header r) ''Content-Encoding'' \<noteq> ''gzip''
      \<and> Header_Get (Header r) ''Content-Encoding'' \<noteq> ''deflate''
    \<longrightarrow> fst (Content gz zl r) = Return (Some [], None))
   \<and> (fst (Content gz zl r) = Return (c, None) \<longrightarrow> c \<noteq> None)
   \<and> (Body raw = Some b \<and> pending b = [] \<and> failure b = None \<and> \<not> closed b
      \<and> ContentLength raw \<le> room
      \<and> Header_Get (Header raw) ''Content-Encoding'' \<noteq> ''gzip''
      \<and> Header_Get (Header raw) ''Content-Encoding'' \<noteq> ''deflate''
    \<longrightarrow> fst (Content0 room gz zl (received0 raw)) = Return (None, None))
   \<and> (ContentLength raw = 0 \<longrightarrow> fst (Content0 room gz zl (received0 raw)) = Return (None, None))"
proof -
  have r0: "internalError (received0 raw) = None" "content0 (received0 raw) = Some []"
    "RawResponse (received0 raw) = Some raw" "Header0 (received0 raw) = Header raw"
    by (simp_all add: received0_def)
  have z: "ContentLength raw = 0 \<Longrightarrow> fst (Content0 room gz zl (received0 raw)) = Return (None, None)"
    using Content0_length_zero[OF r0(1,2,3), where room = room and gz = gz and zl = zl] by simp
  have nn: "fst (Content gz zl r) = Return (c, None) \<Longrightarrow> c \<noteq> None"
    using Content_repeat(5)[of gz zl r c "snd (Content gz zl r)"]
    by (metis prod.collapse)
  show ?thesis
    using Content_identity[of r b gz zl]
      Content0_identity[OF r0(1,2,3), where b = b and gz = gz and zl = zl and room = room] z nn
    by (cases "ContentLength raw = 0") (auto simp: r0)
qed

text \<open>The theorem at the empty bodies of declared length zero and of unknown length.\<close>

theorem C5_empty_body_witness:
  "content (NewResponse empty_length_zero) = None
   \<and> Body (NewResponse empty_length_zero) = Some (stream [] None)
   \<and> pending (stream [] None) = [] \<and> failure (stream [] None) = None \<and> \<not> closed (stream [] None)
   \<and> Header_Get (Header (NewResponse empty_length_zero)) ''Content-Encoding'' = []
   \<and> ContentLength empty_length_zero = 0
   \<and> ContentLength empty_unknown_length \<le> one_gigabyte
   \<and> fst (Content gzip_codec zlib_codec (NewResponse empty_length_zero)) = Return (Some [], None)
   \<and> fst (Content0 one_gigabyte gzip_codec zlib_codec (received0 empty_unknown_length)) = Return (None, None)
   \<and> fst (Content0 one_gigabyte gzip_codec zlib_codec (received0 empty_length_zero)) = Return (None, None)"
  using C5_empty_body
    [where r = "NewResponse empty_length_zero" and b = "stream [] None" and gz = gzip_codec
       and zl = zlib_codec and c = "Some []" and raw = empty_unknown_length
       and room = one_gigabyte]
    C5_empty_body
    [where r = "NewResponse empty_length_zero" and b = "stream [] None" and gz = gzip_codec
       and zl = zlib_codec and c = "Some []" and raw = empty_length_zero
       and room = one_gigabyte]
  by (simp add: fixture_defs NewResponse_def Header_Get_def http_response.defs response.defs)

text \<open>
  Claim C5 as stated fails in \<^verbatim>\<open>part_000\<close>: for the empty body, of declared length
  zero or of unknown length, \<^verbatim>\<open>Content\<close> succeeds with the nil slice.
\<close>

theorem C5_counterexample:
  "NewResponse0 (Some empty_length_zero) None = Return (received0 empty_length_zero, None)
   \<and> Content0 one_gigabyte gzip_codec zlib_codec (received0 empty_length_zero)
       = (Return (None, None), received0 empty_length_zero)
   \<and> fst (Content0 one_gigabyte gzip_codec zlib_codec (received0 empty_unknown_length)) = Return (None, None)"
  by (simp add: library_defs response0_defs fixture_defs loops)

section \<open>Errors that are recorded, and errors that are not\<close>

text \<open>A load of \<^verbatim>\<open>response.go\<close> that returns an error leaves the cache nil.\<close>

lemma loadContent_failure_not_cached:
  assumes "loadContent gz zl r = (Return (c, Some e), r')"
  shows "content r' = None"
proof (cases "content r")
  case (Some x)
  then show ?thesis using assms by (simp add: loadContent_def)
next
  case None
  then show ?thesis using assms
    by (auto simp: loadContent_def load_identity_def load_compressed_def ReadAll_def
        body_Close_def split: option.splits if_splits prod.splits)
qed

text \<open>
  Claim C2, as the code has it. In \<^verbatim>\<open>part_000\<close>, once \<open>internalError\<close> is set,
  \<^verbatim>\<open>Content\<close>, \<^verbatim>\<open>Text\<close>, \<^verbatim>\<open>Json\<close> and \<^verbatim>\<open>SaveContent\<close> return it and change
  neither the response, its body included, nor the file system; and \<^verbatim>\<open>Json\<close> sets it
  when its call of \<^verbatim>\<open>Content\<close> fails, so that the next \<^verbatim>\<open>Content\<close> returns that
  error. In \<^verbatim>\<open>response.go\<close> there is no such field: a load that fails leaves the
  cache nil, which is all the next call looks at.
\<close>

theorem C2_recorded_error_returned:
  "(internalError r = Some e \<longrightarrow>
       Content0 room gz zl r = (Return (None, Some e), r)
     \<and> Text0 room gz zl r = (Return ([], Some e), r)
     \<and> Json0 room gz zl parse r = (Return (None, Some e), r)
     \<and> SaveContent0 filename (r, fs) = (Return (Some e), r, fs))
   \<and> (internalError r = None \<and> Content0 room gz zl r = (Return (c, Some e), r') \<longrightarrow>
       Json0 room gz zl parse r
         = (Return (None, Some (Errorf ''Json error'' e)), r'\<lparr>internalError := Some e\<rparr>)
     \<and> Content0 room gz zl (r'\<lparr>internalError := Some e\<rparr>)
         = (Return (None, Some e), r'\<lparr>internalError := Some e\<rparr>))
   \<and> (loadContent gz zl ra = (Return (ca, Some ea), ra') \<longrightarrow> content ra' = None)"
proof -
  have a: "internalError r = Some e \<Longrightarrow>
       Content0 room gz zl r = (Return (None, Some e), r)
     \<and> Text0 room gz zl r = (Return ([], Some e), r)
     \<and> Json0 room gz zl parse r = (Return (None, Some e), r)
     \<and> SaveContent0 filename (r, fs) = (Return (Some e), r, fs)"
    using recorded_error_accessors[of r e] by simp
  have b: "Content0 room gz zl (r'\<lparr>internalError := Some e\<rparr>)
         = (Return (None, Some e), r'\<lparr>internalError := Some e\<rparr>)"
    using recorded_error_accessors(4)[of "r'\<lparr>internalError := Some e\<rparr>" e] by simp
  have c: "internalError r = None \<Longrightarrow> Content0 room gz zl r = (Return (c, Some e), r') \<Longrightarrow>
       Json0 room gz zl parse r
         = (Return (None, Some (Errorf ''Json error'' e)), r'\<lparr>internalError := Some e\<rparr>)"
    by (simp add: Json0_def)
  have d: "loadContent gz zl ra = (Return (ca, Some ea), ra') \<Longrightarrow> content ra' = None"
    by (rule loadContent_failure_not_cached)
  show ?thesis using a b c d by blast
qed

text \<open>
  The theorem at a response built from a refused connection, and at a body the
  connection resets before the first byte.
\<close>

theorem C2_recorded_error_returned_witness:
  "internalError (failed0 (Failure ''connection refused'')) = Some (Failure ''connection refused'')
   \<and> SaveContent0 ''/tmp/x'' (failed0 (Failure ''connection refused''), no_files)
       = (Return (Some (Failure ''connection refused'')), failed0 (Failure ''connection refused''), no_files)
   \<and> internalError (received0 reset_at_start) = None
   \<and> fst (Content0 one_gigabyte gzip_codec zlib_codec (received0 reset_at_start))
       = Return (None, Some (Failure ''connection reset''))
   \<and> fst (Json0 one_gigabyte gzip_codec zlib_codec json_literal (received0 reset_at_start))
       = Return (None, Some (Errorf ''Json error'' (Failure ''connection reset'')))
   \<and> fst (Content0 one_gigabyte gzip_codec zlib_codec
            (snd (Json0 one_gigabyte gzip_codec zlib_codec json_literal (received0 reset_at_start))))
       = Return (None, Some (Failure ''connection reset''))
   \<and> fst (loadContent gzip_codec zlib_codec (NewResponse reset_at_start))
       = Return (None, Some (Failure ''connection reset''))
   \<and> content (snd (loadContent gzip_codec zlib_codec (NewResponse reset_at_start))) = None"
proof -
  have h1: "internalError (failed0 (Failure ''connection refused'')) = Some (Failure ''connection refused'')"
    by (simp add: failed0_def)
  have h2: "internalError (received0 reset_at_start) = None"
    by (simp add: received0_def)
  have h3: "Content0 one_gigabyte gzip_codec zlib_codec (received0 reset_at_start)
      = (Return (None, Some (Failure ''connection reset'')),
         snd (Content0 one_gigabyte gzip_codec zlib_codec (received0 reset_at_start)))"
    by (simp add: library_defs response0_defs fixture_defs loops)
  have i1: "SaveContent0 ''/tmp/x'' (failed0 (Failure ''connection refused''), no_files)
       = (Return (Some (Failure ''connection refused'')), failed0 (Failure ''connection refused''), no_files)"
    using h1 C2_recorded_error_returned
        [where r = "failed0 (Failure ''connection refused'')"
           and e = "Failure ''connection refused''" and room = one_gigabyte
           and gz = gzip_codec and zl = zlib_codec and parse = json_literal
           and filename = "''/tmp/x''" and fs = no_files]
    by blast
  have g: "fst (loadContent gzip_codec zlib_codec (NewResponse reset_at_start))
       = Return (None, Some (Failure ''connection reset''))"
    by (simp add: library_defs response_defs fixture_defs loops)
  then have h4: "loadContent gzip_codec zlib_codec (NewResponse reset_at_start)
       = (Return (None, Some (Failure ''connection reset'')),
          snd (loadContent gzip_codec zlib_codec (NewResponse reset_at_start)))"
    by (metis prod.collapse)
  have i3: "content (snd (loadContent gzip_codec zlib_codec (NewResponse reset_at_start))) = None"
    using h4 C2_recorded_error_returned
        [where gz = gzip_codec and zl = zlib_codec and ra = "NewResponse reset_at_start"
           and ca = None and ea = "Failure ''connection reset''"
           and ra' = "snd (loadContent gzip_codec zlib_codec (NewResponse reset_at_start))"]
    by blast
  have i2: "Json0 one_gigabyte gzip_codec zlib_codec json_literal (received0 reset_at_start)
         = (Return (None, Some (Errorf ''Json error'' (Failure ''connection reset''))),
            (snd (Content0 one_gigabyte gzip_codec zlib_codec (received0 reset_at_start)))
              \<lparr>internalError := Some (Failure ''connection reset'')\<rparr>)
     \<and> Content0 one_gigabyte gzip_codec zlib_codec
           ((snd (Content0 one_gigabyte gzip_codec zlib_codec (received0 reset_at_start)))
              \<lparr>internalError := Some (Failure ''connection reset'')\<rparr>)
         = (Return (None, Some (Failure ''connection reset'')),
            (snd (Content0 one_gigabyte gzip_codec zlib_codec (received0 reset_at_start)))
              \<lparr>internalError := Some (Failure ''connection reset'')\<rparr>)"
    using h2 h3 C2_recorded_error_returned
        [where r = "received0 reset_at_start" and e = "Failure ''connection reset''"
           and room = one_gigabyte and gz = gzip_codec and zl = zlib_codec
           and parse = json_literal and c = None
           and r' = "snd (Content0 one_gigabyte gzip_codec zlib_codec (received0 reset_at_start))"]
    by blast
  have f: "fst (Content0 one_gigabyte gzip_codec zlib_codec (received0 reset_at_start))
       = Return (None, Some (Failure ''connection reset''))"
    using h3 by (metis fst_conv)
  show ?thesis
    using h1 h2 f g i1 i2 i3 by simp
qed

text \<open>
  Claim C2 as stated fails in \<^verbatim>\<open>response.go\<close>: when the connection is reset before
  the first byte, \<^verbatim>\<open>Content\<close> returns that error after one read of the body, records
  nothing and leaves the body closed; the next \<^verbatim>\<open>Content\<close> reads the body again and
  returns a different error, that of a read after close. It fails in \<^verbatim>\<open>part_000\<close>
  too: when the connection is reset after two bytes, \<^verbatim>\<open>Content\<close> returns that error
  and records nothing, and the next \<^verbatim>\<open>Content\<close> returns the two bytes and no error.
\<close>

theorem C2_counterexample:
  "fst (Content gzip_codec zlib_codec (NewResponse reset_at_start))
       = Return (None, Some (Failure ''connection reset''))
   \<and> Body (snd (Content gzip_codec zlib_codec (NewResponse reset_at_start)))
       = Some \<lparr>pending = [], failure = Some (Failure ''connection reset''), closed = True, reads = 1\<rparr>
   \<and> content (snd (Content gzip_codec zlib_codec (NewResponse reset_at_start))) = None
   \<and> fst (Content gzip_codec zlib_codec
            (snd (Content gzip_codec zlib_codec (NewResponse reset_at_start))))
       = Return (None, Some ErrBodyReadAfterClose)
   \<and> Body (snd (Content gzip_codec zlib_codec
            (snd (Content gzip_codec zlib_codec (NewResponse reset_at_start)))))
       = Some \<lparr>pending = [], failure = Some (Failure ''connection reset''), closed = True, reads = 2\<rparr>
   \<and> fst (Content0 one_gigabyte gzip_codec zlib_codec (received0 reset_after_two))
       = Return (None, Some (Failure ''connection reset''))
   \<and> internalError (snd (Content0 one_gigabyte gzip_codec zlib_codec (received0 reset_after_two))) = None
   \<and> fst (Content0 one_gigabyte gzip_codec zlib_codec
            (snd (Content0 one_gigabyte gzip_codec zlib_codec (received0 reset_after_two))))
       = Return (Some ''ab'', None)"
  by (simp add: library_defs response_defs response0_defs fixture_defs loops)

section \<open>Further properties of response.go\<close>

text \<open>
  After a \<^verbatim>\<open>Content\<close> that succeeded, the slice returned is not nil, and
  \<^verbatim>\<open>Content\<close>, \<^verbatim>\<open>Text\<close>, \<^verbatim>\<open>JSON\<close> and \<^verbatim>\<open>SimpleJSON\<close> all work on the same
  bytes and leave the response, its body included, exactly as it is: nothing is read
  again. This holds for the empty body as well.
\<close>

theorem X1_content_served_from_cache:
  "Content gz zl r = (Return (c, None), r') \<Longrightarrow>
     c \<noteq> None
     \<and> Content gz zl r' = (Return (c, None), r')
     \<and> Text gz zl r' = (Return (bytes_of c, None), r')
     \<and> JSON gz zl parse r' = (Return (parse (bytes_of c)), r')
     \<and> SimpleJSON gz zl parse r' = (Return (parse (bytes_of c)), r')"
  using Content_repeat(1,2,5)[of gz zl r c r'] Content_repeat(3,4)[of gz zl r c r' parse]
  by simp

text \<open>The theorem at the empty body.\<close>

theorem X1_content_served_from_cache_witness:
  "fst (Content gzip_codec zlib_codec (NewResponse empty_length_zero)) = Return (Some [], None)
   \<and> Content gzip_codec zlib_codec (snd (Content gzip_codec zlib_codec (NewResponse empty_length_zero)))
       = (Return (Some [], None), snd (Content gzip_codec zlib_codec (NewResponse empty_length_zero)))"
proof -
  have f: "fst (Content gzip_codec zlib_codec (NewResponse empty_length_zero)) = Return (Some [], None)"
    by (simp add: library_defs response_defs fixture_defs loops)
  then have h: "Content gzip_codec zlib_codec (NewResponse empty_length_zero)
      = (Return (Some [], None), snd (Content gzip_codec zlib_codec (NewResponse empty_length_zero)))"
    by (metis prod.collapse)
  show ?thesis
    using f X1_content_served_from_cache[where parse = json_literal, OF h] by simp
qed

text \<open>What a successful \<^verbatim>\<open>SaveContent\<close> has done.\<close>

lemma SaveContent_success:
  assumes "SaveContent gz zl path (r, fs) = (Return None, r', fs')"
  shows "loadContent gz zl r = (Return (content r', None), r')"
    and "files fs' path = Some (bytes_of (content r'))"
proof -
  obtain fs1 where cr: "os_Create path fs = (None, fs1)"
    using assms by (auto simp: SaveContent_def split: prod.splits option.splits)
  obtain c where l: "loadContent gz zl r = (Return (c, None), r')"
    using assms cr
    by (auto simp: SaveContent_def split: prod.splits option.splits outcome.splits)
  have w: "file_Write path (bytes_of c) fs1 = (None, fs')"
    using assms cr l by (auto simp: SaveContent_def split: prod.splits option.splits)
  have c: "content r' = c" using loadContent_caches[OF l] by simp
  show "loadContent gz zl r = (Return (content r', None), r')" using l c by simp
  have "files fs1 path = Some []"
    using cr by (auto simp: os_Create_def split: option.splits)
  then show "files fs' path = Some (bytes_of (content r'))"
    using w c by (auto simp: file_Write_def split: option.splits)
qed

text \<open>
  When \<^verbatim>\<open>SaveContent\<close> succeeds, the file holds exactly the bytes \<^verbatim>\<open>Content\<close>
  returns for the response, before and after the save.
\<close>

theorem X3_saved_file_is_content:
  "SaveContent gz zl path (r, fs) = (Return None, r', fs') \<Longrightarrow>
     Content gz zl r = (Return (content r', None), r')
     \<and> Content gz zl r' = (Return (content r', None), r')
     \<and> files fs' path = Some (bytes_of (content r'))"
proof -
  assume a: "SaveContent gz zl path (r, fs) = (Return None, r', fs')"
  have c: "Content gz zl r = (Return (content r', None), r')"
    using SaveContent_success(1)[OF a] by (simp add: Content_def)
  show ?thesis
    using c Content_repeat(1)[OF c] SaveContent_success(2)[OF a] by simp
qed

text \<open>The theorem at the gzip stream of \<open>hello\<close>: the file holds \<open>hello\<close>.\<close>

theorem X3_saved_file_is_content_witness:
  "fst (SaveContent gzip_codec zlib_codec ''/tmp/x'' (NewResponse gzipped_hello, no_files)) = Return None
   \<and> files (snd (snd (SaveContent gzip_codec zlib_codec ''/tmp/x'' (NewResponse gzipped_hello, no_files))))
        ''/tmp/x'' = Some ''hello''
   \<and> fst (Content gzip_codec zlib_codec (NewResponse gzipped_hello)) = Return (Some ''hello'', None)"
proof -
  have f: "fst (SaveContent gzip_codec zlib_codec ''/tmp/x'' (NewResponse gzipped_hello, no_files)) = Return None"
    and g: "content (fst (snd (SaveContent gzip_codec zlib_codec ''/tmp/x'' (NewResponse gzipped_hello, no_files))))
      = Some ''hello''"
    by (simp_all add: library_defs response_defs fixture_defs loops)
  have h: "SaveContent gzip_codec zlib_codec ''/tmp/x'' (NewResponse gzipped_hello, no_files)
      = (Return None,
         fst (snd (SaveContent gzip_codec zlib_codec ''/tmp/x'' (NewResponse gzipped_hello, no_files))),
         snd (snd (SaveContent gzip_codec zlib_codec ''/tmp/x'' (NewResponse gzipped_hello, no_files))))"
    using f by (metis prod.collapse)
  show ?thesis
    using f g X3_saved_file_is_content[OF h] by (simp add: bytes_of_def)
qed

text \<open>
  \<^verbatim>\<open>Close\<close> does not return for any response whose content loads to at least one
  byte: it is still in its copy loop after \<open>k\<close> reads, for every \<open>k\<close>.
\<close>

theorem X7_close_never_returns_with_content:
  "loadContent gz zl r = (Return (Some c, None), r') \<Longrightarrow> c \<noteq> [] \<Longrightarrow> Close k gz zl r = None"
  by (rule Close_after_load)

text \<open>The theorem at the gzip stream of \<open>hello\<close> and a bound of a thousand reads.\<close>

theorem X7_close_never_returns_with_content_witness:
  "fst (loadContent gzip_codec zlib_codec (NewResponse gzipped_hello)) = Return (Some ''hello'', None)
   \<and> Close 1000 gzip_codec zlib_codec (NewResponse gzipped_hello) = None"
proof -
  have f: "fst (loadContent gzip_codec zlib_codec (NewResponse gzipped_hello)) = Return (Some ''hello'', None)"
    by (simp add: library_defs response_defs fixture_defs loops)
  then have h: "loadContent gzip_codec zlib_codec (NewResponse gzipped_hello)
     = (Return (Some ''hello'', None), snd (loadContent gzip_codec zlib_codec (NewResponse gzipped_hello)))"
    by (metis prod.collapse)
  show ?thesis
    using f X7_close_never_returns_with_content[OF h, of 1000] by simp
qed

section \<open>Further properties of both files\<close>

text \<open>
  A JSON accessor ends in the state in which \<^verbatim>\<open>Content\<close> ends, whatever the parser
  returns: a parse failure records nothing, and the \<^verbatim>\<open>Content\<close> that follows returns
  the same bytes again. In \<^verbatim>\<open>part_000\<close> this holds when \<^verbatim>\<open>Content\<close> returned
  bytes, that is for a decoded body that is not empty.
\<close>

theorem X4_parse_failure_changes_nothing:
  "(Content gz zl r = (Return (c, None), r') \<longrightarrow>
       SimpleJSON gz zl parse r = (Return (parse (bytes_of c)), r')
     \<and> JSON gz zl parse r = (Return (parse (bytes_of c)), r')
     \<and> Content gz zl r' = (Return (c, None), r'))
   \<and> (Content0 room gz zl r0 = (Return (Some c0, None), r0') \<longrightarrow>
       Json0 room gz zl parse r0 = (Return (parse c0), r0')
     \<and> internalError r0' = None
     \<and> Content0 room gz zl r0' = (Return (Some c0, None), r0'))"
proof -
  have a: "Content gz zl r = (Return (c, None), r') \<Longrightarrow>
       SimpleJSON gz zl parse r = (Return (parse (bytes_of c)), r')
     \<and> JSON gz zl parse r = (Return (parse (bytes_of c)), r')
     \<and> Content gz zl r' = (Return (c, None), r')"
    using Content_success[of gz zl r c r'] Content_repeat(1)[of gz zl r c r']
    by (simp add: SimpleJSON_def JSON_def)
  have b: "Content0 room gz zl r0 = (Return (Some c0, None), r0') \<Longrightarrow>
       Json0 room gz zl parse r0 = (Return (parse c0), r0')
     \<and> internalError r0' = None
     \<and> Content0 room gz zl r0' = (Return (Some c0, None), r0')"
  proof -
    assume h: "Content0 room gz zl r0 = (Return (Some c0, None), r0')"
    have ie: "internalError r0 = None"
      using h by (auto simp: Content0_def loadContent0_def split: option.splits)
    have ie': "internalError r0' = None"
    proof -
      have "loadContent0 room gz zl r0 = (fst (loadContent0 room gz zl r0), r0')"
        using h
        by (auto simp: Content0_def split: prod.splits outcome.splits option.splits if_splits)
      then show ?thesis using loadContent0_frame[of room gz zl r0] ie by (metis snd_conv)
    qed
    show ?thesis
      using h ie ie' Content0_repeat(1)[OF h] by (simp add: Json0_def bytes_of_def)
  qed
  show ?thesis using a b by blast
qed

text \<open>The theorem at the one-byte body \<open>a\<close>, which is not JSON.\<close>

theorem X4_parse_failure_changes_nothing_witness:
  "fst (SimpleJSON gzip_codec zlib_codec json_literal (NewResponse one_byte))
       = Return (None, Some (Failure ''invalid JSON''))
   \<and> fst (Content gzip_codec zlib_codec
            (snd (SimpleJSON gzip_codec zlib_codec json_literal (NewResponse one_byte))))
       = Return (Some ''a'', None)
   \<and> fst (Json0 one_gigabyte gzip_codec zlib_codec json_literal (received0 one_byte))
       = Return (None, Some (Failure ''invalid JSON''))
   \<and> fst (Content0 one_gigabyte gzip_codec zlib_codec
            (snd (Json0 one_gigabyte gzip_codec zlib_codec json_literal (received0 one_byte))))
       = Return (Some ''a'', None)"
proof -
  have f: "fst (Content gzip_codec zlib_codec (NewResponse one_byte)) = Return (Some ''a'', None)"
    and f0: "fst (Content0 one_gigabyte gzip_codec zlib_codec (received0 one_byte)) = Return (Some ''a'', None)"
    by (simp_all add: library_defs response_defs response0_defs fixture_defs loops)
  have h: "Content gzip_codec zlib_codec (NewResponse one_byte)
      = (Return (Some ''a'', None), snd (Content gzip_codec zlib_codec (NewResponse one_byte)))"
    using f by (metis prod.collapse)
  have h0: "Content0 one_gigabyte gzip_codec zlib_codec (received0 one_byte)
      = (Return (Some ''a'', None), snd (Content0 one_gigabyte gzip_codec zlib_codec (received0 one_byte)))"
    using f0 by (metis prod.collapse)
  have p: "json_literal ''a'' = (None, Some (Failure ''invalid JSON''))"
    by (simp add: json_literal_def)
  show ?thesis
    using X4_parse_failure_changes_nothing
      [where gz = gzip_codec and zl = zlib_codec and r = "NewResponse one_byte"
         and c = "Some ''a''" and r' = "snd (Content gzip_codec zlib_codec (NewResponse one_byte))"
         and parse = json_literal and room = one_gigabyte and ?r0.0 = "received0 one_byte"
         and ?c0.0 = "''a''"
         and r0' = "snd (Content0 one_gigabyte gzip_codec zlib_codec (received0 one_byte))"]
      h h0 p f f0
    by (simp add: bytes_of_def)
qed

text \<open>A failed \<^verbatim>\<open>NewReader\<close> ends in the panic of the deferred close.\<close>

lemma load_compressed_failed_setup:
  "fst (fst (NewReader c b)) = None \<Longrightarrow> fst (load_compressed c b r) = Panic"
  by (auto simp: load_compressed_def split: prod.splits option.splits)

lemma NewReader0_body:
  assumes "internalError r = None" "RawResponse r = Some raw" "Body raw = Some b"
  shows "NewReader0 c r =
     (Return (fst (NewReader c b)),
      r\<lparr>RawResponse := Some (raw\<lparr>Body := Some (snd (NewReader c b))\<rparr>)\<rparr>)"
  using assms
  by (auto simp: NewReader0_def NewReader_def Read0_def split: prod.splits option.splits)

lemma deferred0_nil_reader:
  "fst (deferred0 (Return (err, NilReader), r)) = Panic"
  by (auto simp: deferred0_def split: prod.splits outcome.splits)

lemma copy_compressed0_failed_setup:
  assumes "internalError r = None" "RawResponse r = Some raw" "Body raw = Some b"
    and "fst (fst (NewReader c b)) = None"
  shows "fst (deferred0 (copy_compressed0 c r)) = Panic"
proof -
  obtain p err where n: "fst (NewReader c b) = (p, err)" by (metis prod.exhaust)
  have p: "p = None" using assms(4) n by simp
  have "copy_compressed0 c r =
      (Return (err, NilReader),
       r\<lparr>RawResponse := Some (raw\<lparr>Body := Some (snd (NewReader c b))\<rparr>)\<rparr>)"
    using NewReader0_body[OF assms(1,2,3), of c] n p by (simp add: copy_compressed0_def)
  then show ?thesis using deferred0_nil_reader by simp
qed

text \<open>
  Whatever the decompressors are: when the header names \<open>gzip\<close> or \<open>deflate\<close> and
  \<^verbatim>\<open>NewReader\<close> returns no reader for the body, \<^verbatim>\<open>loadContent\<close> panics, in
  \<^verbatim>\<open>response.go\<close> for a response not yet loaded, in \<^verbatim>\<open>part_000\<close> for one with an
  empty buffer and a declared length other than zero.
\<close>

theorem X6_failed_setup_always_panics:
  "(content r = None \<and> Body r = Some b
      \<and> Header_Get (Header r) ''Content-Encoding'' = ''gzip''
      \<and> fst (fst (NewReader gz b)) = None
    \<longrightarrow> fst (loadContent gz zl r) = Panic)
   \<and> (content r = None \<and> Body r = Some b
      \<and> Header_Get (Header r) ''Content-Encoding'' = ''deflate''
      \<and> fst (fst (NewReader zl b)) = None
    \<longrightarrow> fst (loadContent gz zl r) = Panic)
   \<and> (internalError r0 = None \<and> content0 r0 = Some [] \<and> RawResponse r0 = Some raw
      \<and> ContentLength raw \<noteq> 0 \<and> Body raw = Some b
      \<and> Header_Get (Header0 r0) ''Content-Encoding'' = ''gzip''
      \<and> fst (fst (NewReader gz b)) = None
    \<longrightarrow> fst (loadContent0 room gz zl r0) = Panic)
   \<and> (internalError r0 = None \<and> content0 r0 = Some [] \<and> RawResponse r0 = Some raw
      \<and> ContentLength raw \<noteq> 0 \<and> Body raw = Some b
      \<and> Header_Get (Header0 r0) ''Content-Encoding'' = ''deflate''
      \<and> fst (fst (NewReader zl b)) = None
    \<longrightarrow> fst (loadContent0 room gz zl r0) = Panic)"
  using load_compressed_failed_setup[of gz b r] load_compressed_failed_setup[of zl b r]
    copy_compressed0_failed_setup[of r0 raw b gz] copy_compressed0_failed_setup[of r0 raw b zl]
  by (simp add: loadContent_def loadContent0_def Buffer_Grow_def)

text \<open>
  The theorem at plain text declared \<open>gzip\<close>, and at an empty body of unknown length
  declared \<open>gzip\<close>, in both files.
\<close>

theorem X6_failed_setup_always_panics_witness:
  "fst (fst (NewReader gzip_codec (stream ''plain text, not gzip'' None))) = None
   \<and> fst (loadContent gzip_codec zlib_codec (NewResponse not_gzip)) = Panic
   \<and> fst (fst (NewReader gzip_codec (stream [] None))) = None
   \<and> fst (loadContent gzip_codec zlib_codec (NewResponse empty_gzip)) = Panic
   \<and> fst (loadContent0 one_gigabyte gzip_codec zlib_codec (received0 empty_gzip)) = Panic"
proof -
  have n1: "fst (fst (NewReader gzip_codec (stream ''plain text, not gzip'' None))) = None"
    and n2: "fst (fst (NewReader gzip_codec (stream [] None))) = None"
    by (simp_all add: library_defs fixture_defs)
  show ?thesis
    using n1 n2
      X6_failed_setup_always_panics
        [of "NewResponse not_gzip" "stream ''plain text, not gzip'' None" gzip_codec zlib_codec
            "received0 empty_gzip" empty_gzip]
      X6_failed_setup_always_panics
        [of "NewResponse empty_gzip" "stream [] None" gzip_codec zlib_codec
            "received0 empty_gzip" empty_gzip]
    by (simp add: fixture_defs NewResponse_def received0_def Header_Get_def
        http_response.defs response.defs)
qed

section \<open>Further properties of part_000\<close>

text \<open>
  A declared length beyond the room the buffer can be grown to: with an empty buffer and
  no recorded error, \<^verbatim>\<open>loadContent\<close> panics in \<^verbatim>\<open>Grow\<close>, before the deferred
  function exists and before any read, so the response is left as it was; and so do the
  three accessors that call it.
\<close>

theorem X8_grow_beyond_room_panics:
  "internalError r = None \<Longrightarrow> content0 r = Some [] \<Longrightarrow> RawResponse r = Some raw \<Longrightarrow>
   0 \<le> room \<Longrightarrow> room < ContentLength raw \<Longrightarrow>
     loadContent0 room gz zl r = (Panic, r)
     \<and> Content0 room gz zl r = (Panic, r)
     \<and> Text0 room gz zl r = (Panic, r)
     \<and> Json0 room gz zl parse r = (Panic, r)"
  by (simp add: loadContent0_def Buffer_Grow_def Content0_def Text0_def Json0_def)

text \<open>The theorem at the empty body with the largest declared length, and a gigabyte of room.\<close>

theorem X8_grow_beyond_room_panics_witness:
  "internalError (received0 huge_declared_length) = None
   \<and> content0 (received0 huge_declared_length) = Some []
   \<and> one_gigabyte < ContentLength huge_declared_length
   \<and> Content0 one_gigabyte gzip_codec zlib_codec (received0 huge_declared_length)
       = (Panic, received0 huge_declared_length)"
  using X8_grow_beyond_room_panics
    [where r = "received0 huge_declared_length" and raw = huge_declared_length
       and room = one_gigabyte and gz = gzip_codec and zl = zlib_codec and parse = json_literal]
  by (simp add: received0_def fixture_defs)

text \<open>
  When \<^verbatim>\<open>Content\<close> has returned bytes, \<^verbatim>\<open>Content\<close>, \<^verbatim>\<open>Text\<close> and \<^verbatim>\<open>Json\<close>
  return the same bytes and leave the response as it is.
\<close>

theorem X2_buffer_served_again:
  "Content0 room gz zl r = (Return (Some c, None), r') \<Longrightarrow>
     Content0 room gz zl r' = (Return (Some c, None), r')
     \<and> Text0 room gz zl r' = (Return (c, None), r')
     \<and> Json0 room gz zl parse r' = (Return (parse c), r')"
  using Content0_repeat(1,2)[of room gz zl r c r'] Content0_repeat(3)[of room gz zl r c r' parse]
  by simp

text \<open>The theorem at the gzip stream of \<open>hello\<close>.\<close>

theorem X2_buffer_served_again_witness:
  "fst (Content0 one_gigabyte gzip_codec zlib_codec (received0 gzipped_hello)) = Return (Some ''hello'', None)
   \<and> Content0 one_gigabyte gzip_codec zlib_codec (snd (Content0 one_gigabyte gzip_codec zlib_codec (received0 gzipped_hello)))
       = (Return (Some ''hello'', None), snd (Content0 one_gigabyte gzip_codec zlib_codec (received0 gzipped_hello)))"
proof -
  have f: "fst (Content0 one_gigabyte gzip_codec zlib_codec (received0 gzipped_hello)) = Return (Some ''hello'', None)"
    by (simp add: library_defs response0_defs fixture_defs loops)
  then have h: "Content0 one_gigabyte gzip_codec zlib_codec (received0 gzipped_hello)
      = (Return (Some ''hello'', None), snd (Content0 one_gigabyte gzip_codec zlib_codec (received0 gzipped_hello)))"
    by (metis prod.collapse)
  show ?thesis
    using f X2_buffer_served_again[where parse = json_literal, OF h] by simp
qed

text \<open>\<^verbatim>\<open>Close\<close> on an open body, and on a closed one.\<close>

lemma Close0_open:
  assumes "internalError r = None" "RawResponse r = Some raw" "Body raw = Some b" "\<not> closed b"
  shows "Close0 r =
     (Return None,
      r\<lparr>RawResponse := Some (raw\<lparr>Body := Some (b\<lparr>pending := [],
            reads := reads b + Suc ((length (pending b) + 8191) div 8192), closed := True\<rparr>)\<rparr>)\<rparr>)"
  using assms by (simp add: Close0_def body_Close_def loops)

lemma Close0_closed:
  assumes "internalError r = None" "RawResponse r = Some raw" "Body raw = Some b" "closed b"
  shows "Close0 r =
     (Return None, r\<lparr>RawResponse := Some (raw\<lparr>Body := Some (b\<lparr>reads := Suc (reads b)\<rparr>)\<rparr>)\<rparr>)"
  using assms by (simp add: Close0_def body_Close_def loops)

text \<open>
  \<^verbatim>\<open>Close\<close> of \<^verbatim>\<open>part_000\<close> is a total function, so it always returns. On a
  response without a recorded error whose body is open it returns no error, leaves the
  body drained and closed, and a second \<^verbatim>\<open>Close\<close> returns no error and changes
  nothing but the count of reads, by the one the closed body refuses.
\<close>

theorem X5_close0_drains_and_closes:
  "internalError r = None \<Longrightarrow> RawResponse r = Some raw \<Longrightarrow> Body raw = Some b \<Longrightarrow> \<not> closed b \<Longrightarrow>
     fst (Close0 r) = Return None
     \<and> body0 (snd (Close0 r))
         = Some (b\<lparr>pending := [], reads := reads b + Suc ((length (pending b) + 8191) div 8192),
                   closed := True\<rparr>)
     \<and> fst (Close0 (snd (Close0 r))) = Return None
     \<and> body0 (snd (Close0 (snd (Close0 r))))
         = Some (b\<lparr>pending := [], reads := Suc (reads b + Suc ((length (pending b) + 8191) div 8192)),
                   closed := True\<rparr>)"
proof -
  assume a: "internalError r = None" "RawResponse r = Some raw" "Body raw = Some b" "\<not> closed b"
  let ?b1 = "b\<lparr>pending := [], reads := reads b + Suc ((length (pending b) + 8191) div 8192),
                closed := True\<rparr>"
  let ?r1 = "r\<lparr>RawResponse := Some (raw\<lparr>Body := Some ?b1\<rparr>)\<rparr>"
  have c1: "Close0 r = (Return None, ?r1)" by (rule Close0_open[OF a])
  have c2: "Close0 ?r1 =
      (Return None, ?r1\<lparr>RawResponse := Some ((raw\<lparr>Body := Some ?b1\<rparr>)\<lparr>Body := Some (?b1\<lparr>reads := Suc (reads ?b1)\<rparr>)\<rparr>)\<rparr>)"
    by (rule Close0_closed) (simp_all add: a)
  have s1: "snd (Close0 r) = ?r1" and f1: "fst (Close0 r) = Return None"
    using c1 by simp_all
  show ?thesis
    unfolding s1 f1 c2 by (simp add: body0_def)
qed

text \<open>The theorem at the one-byte body.\<close>

theorem X5_close0_drains_and_closes_witness:
  "fst (Close0 (received0 one_byte)) = Return None
   \<and> body0 (snd (Close0 (received0 one_byte)))
       = Some \<lparr>pending = [], failure = None, closed = True, reads = 2\<rparr>
   \<and> body0 (snd (Close0 (snd (Close0 (received0 one_byte)))))
       = Some \<lparr>pending = [], failure = None, closed = True, reads = 3\<rparr>"
  using X5_close0_drains_and_closes [of "received0 one_byte" one_byte "stream ''a'' None"]
  by (simp add: fixture_defs received0_def)

end
